theory Spec2Isabelle
  imports Complex_Main "HOL-Library.Word"
begin

unbundle bit_operations_syntax

section \<open>Data model of the software rasterizer\<close>

text \<open>
  The embedding follows \<^verbatim>\<open>src/lib/sw_engine/tvgSwRaster.cpp\<close> and
  \<^verbatim>\<open>src/lib/sw_engine/tvgSwRenderer.cpp\<close>. Pixel words are 32-bit machine words.
  A pixel buffer is the memory seen from its base pointer: a function from the element
  offset to the word stored there, so that pointer arithmetic is addition of offsets and a
  store is a function update. The destination buffer, the compositor buffer and a source
  image buffer are separate objects (they do not alias). An address computed in a signed
  type is an integer offset; \<open>load\<close> and \<open>store\<close> access the element at that offset
  (an offset before the start of the buffer is outside the buffer in C; it is read here as
  offset 0).
\<close>

type_synonym u8 = "8 word"
type_synonym u16 = "16 word"
type_synonym u32 = "32 word"
type_synonym buf32 = "nat \<Rightarrow> u32"

text \<open>
  The enumerators that the rasterizer names, and \<open>OtherCS\<close> for every other value of the
  colour-space tag (the enum's declaration is in the public header).
\<close>

datatype ColorSpace = ABGR8888 | ARGB8888 | ABGR8888S | ARGB8888S | OtherCS nat

datatype CompositeMethod =
    NoComposite | ClipPath | AlphaMask | InvAlphaMask | LumaMask | InvLumaMask
  | AddMask | SubtractMask | IntersectMask | DifferenceMask

text \<open>The integer value of a composite method, as the casts \<^verbatim>\<open>(int)method\<close> read it.\<close>

fun method_int :: "CompositeMethod \<Rightarrow> int" where
  "method_int NoComposite = 0"
| "method_int ClipPath = 1"
| "method_int AlphaMask = 2"
| "method_int InvAlphaMask = 3"
| "method_int LumaMask = 4"
| "method_int InvLumaMask = 5"
| "method_int AddMask = 6"
| "method_int SubtractMask = 7"
| "method_int IntersectMask = 8"
| "method_int DifferenceMask = 9"

text \<open>
  The blender holds function pointers. A pointer is modelled by the name of the function it
  points to, \<open>None\<close> for a pointer that was never set.
\<close>

datatype SwAlpha = ALPHA | IALPHA | abgrLuma | argbLuma | abgrInvLuma | argbInvLuma

datatype SwJoin = abgrJoin | argbJoin

record SwBlender =
  join :: "SwJoin option"
  alphas :: "nat \<Rightarrow> SwAlpha option"

text \<open>\<^verbatim>\<open>SwBBox\<close>: the two corner points, coordinates of type \<^verbatim>\<open>SwCoord\<close> (a signed
  integer wider than the surface dimensions).\<close>

record SwBBox =
  min_x :: int
  min_y :: int
  max_x :: int
  max_y :: int

text \<open>\<^verbatim>\<open>SwSpan\<close>: \<^verbatim>\<open>int16_t x, y; uint16_t len; uint8_t coverage\<close>.\<close>

record SwSpan =
  span_x :: "16 word"
  span_y :: "16 word"
  span_len :: u16
  coverage :: u8

text \<open>\<^verbatim>\<open>SwRleData\<close>: the span array as the memory seen from \<^verbatim>\<open>rle->spans\<close>, of
  which the first \<^verbatim>\<open>rle->size\<close> entries are the spans of the shape.\<close>

record SwRleData =
  spans :: "nat \<Rightarrow> SwSpan"
  rsize :: u32

text \<open>\<^verbatim>\<open>SwImage\<close>, with the fields the modelled routines read. \<open>irle\<close> is the optional
  RLE clip; \<open>ox\<close> and \<open>oy\<close> are signed 32-bit offsets, read as integers.\<close>

record SwImage =
  ibuf32 :: buf32
  istride :: u32
  iw :: u32
  ih :: u32
  ox :: int
  oy :: int
  ichannelSize :: u8
  irle :: "SwRleData option"

record SwCompositor =
  image :: SwImage
  bbox :: SwBBox
  cmethod :: CompositeMethod

text \<open>\<^verbatim>\<open>SwSurface\<close> (the fields \<^verbatim>\<open>w\<close> and \<^verbatim>\<open>h\<close> are written \<open>sw\<close> and \<open>sh\<close>).\<close>

record SwSurface =
  buf32 :: buf32
  stride :: u32
  sw :: u32
  sh :: u32
  cs :: ColorSpace
  channelSize :: u8
  premultiplied :: bool
  blender :: SwBlender
  compositor :: "SwCompositor option"

text \<open>A counted loop \<^verbatim>\<open>for (i = 0; i < n; ++i) body(i)\<close> over a state.\<close>

primrec for_loop :: "nat \<Rightarrow> (nat \<Rightarrow> 's \<Rightarrow> 's) \<Rightarrow> 's \<Rightarrow> 's" where
  "for_loop 0 body s = s"
| "for_loop (Suc n) body s = body n (for_loop n body s)"

section \<open>Blender configuration\<close>

text \<open>\<^verbatim>\<open>rasterCompositor\<close>: the two alpha extractors are installed before the colour
  space is examined.\<close>

definition rasterCompositor :: "SwSurface \<Rightarrow> bool \<times> SwSurface" where
  "rasterCompositor surface =
     (let b0 = blender surface;
          b1 = b0\<lparr>alphas := (alphas b0)(0 := Some ALPHA)\<rparr>;
          b2 = b1\<lparr>alphas := (alphas b1)(1 := Some IALPHA)\<rparr>
      in if cs surface = ABGR8888 \<or> cs surface = ABGR8888S then
           (True, surface\<lparr>blender :=
              b2\<lparr>join := Some abgrJoin,
                 alphas := (alphas b2)(2 := Some abgrLuma, 3 := Some abgrInvLuma)\<rparr>\<rparr>)
         else if cs surface = ARGB8888 \<or> cs surface = ARGB8888S then
           (True, surface\<lparr>blender :=
              b2\<lparr>join := Some argbJoin,
                 alphas := (alphas b2)(2 := Some argbLuma, 3 := Some argbInvLuma)\<rparr>\<rparr>)
         else (False, surface\<lparr>blender := b2\<rparr>))"

section \<open>Premultiplication\<close>

text \<open>The body of the pixel loop of \<^verbatim>\<open>rasterUnpremultiply\<close>, on one pixel word.\<close>

definition unpremultiply_px :: "u32 \<Rightarrow> u32" where
  "unpremultiply_px p =
     (let a = (ucast (drop_bit 24 p) :: u8) in
      if a = 255 then p
      else if a = 0 then 0x00ffffff
      else
        let r = (ucast ((drop_bit 8 p AND 0xff00) div ucast a) :: u16);
            g = (ucast ((p AND 0xff00) div ucast a) :: u16);
            b = (ucast ((push_bit 8 p AND 0xff00) div ucast a) :: u16);
            r' = (if r > 0xff then 0xff else r);
            g' = (if g > 0xff then 0xff else g);
            b' = (if b > 0xff then 0xff else b)
        in push_bit 24 (ucast a) OR push_bit 16 (ucast r') OR push_bit 8 (ucast g') OR ucast b')"

text \<open>\<^verbatim>\<open>rasterUnpremultiply\<close>: row \<open>y\<close> starts at offset \<^verbatim>\<open>surface->stride * y\<close>,
  a 32-bit product.\<close>

definition rasterUnpremultiply :: "SwSurface \<Rightarrow> SwSurface" where
  "rasterUnpremultiply surface =
     (if channelSize surface \<noteq> 4 then surface
      else surface\<lparr>
        buf32 := for_loop (unat (sh surface)) (\<lambda>y. for_loop (unat (sw surface)) (\<lambda>x buf.
                   let i = unat (stride surface * of_nat y) + x
                   in buf(i := unpremultiply_px (buf i)))) (buf32 surface),
        premultiplied := False\<rparr>)"

text \<open>The body of the pixel loop of \<^verbatim>\<open>rasterPremultiply\<close>.\<close>

definition premultiply_px :: "u32 \<Rightarrow> u32" where
  "premultiply_px c =
     (let a = drop_bit 24 c in
      (c AND 0xff000000) + ((((drop_bit 8 c) AND 0xff) * a) AND 0xff00)
        + ((drop_bit 8 ((c AND 0x00ff00ff) * a)) AND 0x00ff00ff))"

text \<open>\<^verbatim>\<open>rasterPremultiply\<close>: the row pointer advances by \<^verbatim>\<open>surface->stride\<close>
  elements per row.\<close>

definition rasterPremultiply :: "SwSurface \<Rightarrow> SwSurface" where
  "rasterPremultiply surface =
     (if channelSize surface \<noteq> 4 then surface
      else surface\<lparr>
        buf32 := for_loop (unat (sh surface)) (\<lambda>y. for_loop (unat (sw surface)) (\<lambda>x buf.
                   let i = y * unat (stride surface) + x
                   in buf(i := premultiply_px (buf i)))) (buf32 surface),
        premultiplied := True\<rparr>)"

section \<open>Pixel algebra\<close>

text \<open>How a routine ends: it returns a value, it goes through a null pointer (a missing
  compositor, RLE clip or join function), or one of its loops never exits.\<close>

datatype 'a outcome = Done 'a | Fault | Hang

definition load :: "buf32 \<Rightarrow> int \<Rightarrow> u32" where
  "load buf i = buf (nat i)"

definition store :: "buf32 \<Rightarrow> int \<Rightarrow> u32 \<Rightarrow> buf32" where
  "store buf i v = buf(nat i := v)"

text \<open>
  The macros \<^verbatim>\<open>ALPHA_BLEND\<close> and \<^verbatim>\<open>MULTIPLY\<close> come from the engine's common header,
  which is not among the sources: the routines take them as parameters.
\<close>

record SwPixelOps =
  ALPHA_BLEND :: "u32 \<Rightarrow> u32 \<Rightarrow> u32"
  MULTIPLY :: "u32 \<Rightarrow> u32 \<Rightarrow> u32"

text \<open>Modelled from the spec: the pixel overloads of \<^verbatim>\<open>ALPHA\<close> and \<^verbatim>\<open>IALPHA\<close> are
  declared in the common header, which is not among the sources;
  \<open>alpha(c) = c >> 24\<close> and \<open>iAlpha = 255 - alpha\<close>.\<close>

definition ALPHA_of :: "u32 \<Rightarrow> u32" where
  "ALPHA_of c = drop_bit 24 c"

definition IALPHA_of :: "u32 \<Rightarrow> u32" where
  "IALPHA_of c = 255 - drop_bit 24 c"

text \<open>\<^verbatim>\<open>_abgrJoin\<close> and \<^verbatim>\<open>_argbJoin\<close>, called through \<^verbatim>\<open>blender.join\<close>.\<close>

fun apply_join :: "SwJoin \<Rightarrow> u8 \<Rightarrow> u8 \<Rightarrow> u8 \<Rightarrow> u8 \<Rightarrow> u32" where
  "apply_join abgrJoin r g b a =
     push_bit 24 (ucast a) OR push_bit 16 (ucast b) OR push_bit 8 (ucast g) OR ucast r"
| "apply_join argbJoin r g b a =
     push_bit 24 (ucast a) OR push_bit 16 (ucast r) OR push_bit 8 (ucast g) OR ucast b"

text \<open>Modelled from the spec: \<^verbatim>\<open>rasterRGBA32\<close> forwards to \<^verbatim>\<open>cRasterPixels\<close>, which
  is not among the sources; it is the memset-like store of \<open>len\<close> words \<open>val\<close> from
  \<open>dst + offset\<close> (\<open>len\<close> is a signed 32-bit count).\<close>

definition rasterRGBA32 :: "buf32 \<Rightarrow> int \<Rightarrow> u32 \<Rightarrow> u32 \<Rightarrow> u32 \<Rightarrow> buf32" where
  "rasterRGBA32 buf dst val offset len =
     for_loop (nat (sint len)) (\<lambda>k b. store b (dst + uint offset + int k) val) buf"

text \<open>The double loop shared by the rectangle routines: rows \<open>st\<close> elements apart from
  \<open>base\<close>, each pixel of a row replaced by \<open>f\<close> of its old value.\<close>

definition rect_update :: "(u32 \<Rightarrow> u32) \<Rightarrow> int \<Rightarrow> int \<Rightarrow> nat \<Rightarrow> nat \<Rightarrow> buf32 \<Rightarrow> buf32" where
  "rect_update f base st rows cols buf =
     for_loop rows (\<lambda>y. for_loop cols (\<lambda>x b.
       let i = base + int y * st + int x in store b i (f (load b i)))) buf"

section \<open>Direct image blit\<close>

text \<open>\<^verbatim>\<open>_rasterDirectRGBAImage\<close>: the loops run over \<^verbatim>\<open>SwCoord\<close> counters.\<close>

definition rasterDirectRGBAImage ::
    "SwPixelOps \<Rightarrow> SwSurface \<Rightarrow> SwImage \<Rightarrow> SwBBox \<Rightarrow> u32 \<Rightarrow> bool \<times> SwSurface" where
  "rasterDirectRGBAImage P surface img region opacity =
     (let dbuffer = min_y region * uint (stride surface) + min_x region;
          sbuffer = (min_y region + oy img) * uint (istride img) + (min_x region + ox img);
          buf' = for_loop (nat (max_y region - min_y region)) (\<lambda>y.
                   for_loop (nat (max_x region - min_x region)) (\<lambda>x buf.
                     let d = dbuffer + int y * uint (stride surface) + int x;
                         src = load (ibuf32 img) (sbuffer + int y * uint (istride img) + int x)
                     in if opacity = 255 then
                          store buf d (src + ALPHA_BLEND P (load buf d) (IALPHA_of src))
                        else
                          let tmp = ALPHA_BLEND P src opacity
                          in store buf d (tmp + ALPHA_BLEND P (load buf d) (IALPHA_of tmp))))
                   (buf32 surface)
      in (True, surface\<lparr>buf32 := buf'\<rparr>))"

section \<open>Solid colour under a mask\<close>

text \<open>
  The \<^verbatim>\<open>IntersectMask\<close> branch of \<^verbatim>\<open>_rasterMaskedRect\<close>, which the masked gradient
  rectangles repeat with another inner statement. Its loops advance by steps that depend on
  the region, so each is a recursive function that has no value (\<open>None\<close>) when the loop
  never exits. \<open>intersect_x\<close> is the \<^verbatim>\<open>while (x < bbox.max.x)\<close> loop of one region row,
  \<open>tmp\<close> its write position and \<open>run tmp x\<close> the statement that handles the \<open>w\<close> pixels
  of the region.
\<close>

partial_function (option) intersect_x ::
    "(int \<Rightarrow> int \<Rightarrow> buf32 \<Rightarrow> buf32) \<Rightarrow> u32 \<Rightarrow> int \<Rightarrow> int \<Rightarrow> int \<Rightarrow> int \<Rightarrow> buf32
       \<Rightarrow> buf32 option" where
  "intersect_x run w rmin_x bmax_x x tmp buf =
     (if x < bmax_x then
        (if x = rmin_x then
           intersect_x run w rmin_x bmax_x (x + uint w) (tmp + uint w) (run tmp x buf)
         else intersect_x run w rmin_x bmax_x (x + 1) (tmp + 1) (store buf tmp 0))
      else Some buf)"

text \<open>The loop \<^verbatim>\<open>for (uint32_t y2 = y; y2 < region.max.y; ++y2)\<close>: the number of its
  rounds, \<open>None\<close> when the 32-bit counter can never reach the bound.\<close>

definition rounds_u32 :: "u32 \<Rightarrow> int \<Rightarrow> nat option" where
  "rounds_u32 y bound =
     (if bound \<le> uint y then Some 0
      else if bound \<le> 2 ^ 32 then Some (nat (bound - uint y))
      else None)"

primrec for_loop_opt :: "nat \<Rightarrow> (nat \<Rightarrow> 's \<Rightarrow> 's option) \<Rightarrow> 's \<Rightarrow> 's option" where
  "for_loop_opt 0 body s = Some s"
| "for_loop_opt (Suc n) body s = Option.bind (for_loop_opt n body s) (body n)"

definition intersect_region_rows ::
    "(u32 \<Rightarrow> int \<Rightarrow> int \<Rightarrow> buf32 \<Rightarrow> buf32) \<Rightarrow> u32 \<Rightarrow> SwBBox \<Rightarrow> SwBBox \<Rightarrow> u32 \<Rightarrow> u32 \<Rightarrow> int
       \<Rightarrow> buf32 \<Rightarrow> buf32 option" where
  "intersect_region_rows run w region cbbox cstride y cmp buf =
     Option.bind (rounds_u32 y (max_y region)) (\<lambda>n.
       for_loop_opt n (\<lambda>k b.
         intersect_x (run (y + of_nat k)) w (min_x region) (max_x cbbox) (min_x cbbox)
           (cmp + int k * uint cstride) b) buf)"

text \<open>The outer loop \<^verbatim>\<open>for (uint32_t y = bbox.min.y; y < bbox.max.y; ++y)\<close>; in the
  first region row it handles the whole region and skips \<open>h - 1\<close> rows further. A row
  outside the region gets \<open>zero_len\<close> zero words from the left edge of the bbox.\<close>

partial_function (option) intersect_y ::
    "(u32 \<Rightarrow> int \<Rightarrow> int \<Rightarrow> buf32 \<Rightarrow> buf32) \<Rightarrow> u32 \<Rightarrow> u32 \<Rightarrow> u32 \<Rightarrow> SwBBox \<Rightarrow> SwBBox \<Rightarrow> u32
       \<Rightarrow> u32 \<Rightarrow> buf32 \<Rightarrow> buf32 option" where
  "intersect_y run zero_len w h region cbbox cstride y buf =
     (if uint y < max_y cbbox then
        (let cmp = uint (y * cstride) + min_x cbbox in
         if uint y = min_y region then
           Option.bind (intersect_region_rows run w region cbbox cstride y cmp buf)
             (\<lambda>buf'. intersect_y run zero_len w h region cbbox cstride (y + (h - 1) + 1) buf')
         else intersect_y run zero_len w h region cbbox cstride (y + 1)
                (rasterRGBA32 buf cmp 0x00000000 0 zero_len))
      else Some buf)"

text \<open>\<^verbatim>\<open>_rasterMaskedRect\<close>. The compositor image is updated first; the last step blits
  it onto the surface.\<close>

definition rasterMaskedRect ::
    "SwPixelOps \<Rightarrow> SwSurface \<Rightarrow> SwBBox \<Rightarrow> u8 \<Rightarrow> u8 \<Rightarrow> u8 \<Rightarrow> u8
       \<Rightarrow> (bool \<times> SwSurface) outcome" where
  "rasterMaskedRect P surface region r g b a =
     (if channelSize surface \<noteq> 4 then Done (False, surface)
      else case compositor surface of None \<Rightarrow> Fault | Some cmp \<Rightarrow>
       (case join (blender surface) of None \<Rightarrow> Fault | Some j \<Rightarrow>
        (let w = (of_int (max_x region - min_x region) :: u32);
             h = (of_int (max_y region - min_y region) :: u32);
             cstride = istride (image cmp);
             cbuffer = min_y region * uint cstride + min_x region;
             color = apply_join j r g b a;
             ialpha = (255 - ucast a :: u32);
             method = cmethod cmp;
             cbuf = ibuf32 (image cmp);
             finish = (\<lambda>cbuf'.
               let cmp' = cmp\<lparr>image := (image cmp)\<lparr>ibuf32 := cbuf'\<rparr>\<rparr>;
                   surface' = surface\<lparr>compositor := Some cmp'\<rparr>
               in Done (rasterDirectRGBAImage P surface' (image cmp') (bbox cmp') 255))
         in if method = AddMask then
              finish (rect_update (\<lambda>c. color + ALPHA_BLEND P c ialpha)
                        cbuffer (uint cstride) (unat h) (unat w) cbuf)
            else if method = SubtractMask then
              finish (rect_update (\<lambda>c. ALPHA_BLEND P c ialpha)
                        cbuffer (uint cstride) (unat h) (unat w) cbuf)
            else if method = IntersectMask then
              (case intersect_y
                      (\<lambda>y2 tmp x. for_loop (unat w) (\<lambda>i b.
                         store b (tmp + int i) (ALPHA_BLEND P (load b (tmp + int i)) (ucast a))))
                      w w h region (bbox cmp) cstride (of_int (min_y (bbox cmp))) cbuf
               of None \<Rightarrow> Hang | Some cbuf' \<Rightarrow> finish cbuf')
            else if method = DifferenceMask then
              finish (rect_update
                        (\<lambda>c. ALPHA_BLEND P color (IALPHA_of c) + ALPHA_BLEND P c ialpha)
                        cbuffer (uint cstride) (unat h) (unat w) cbuf)
            else Done (False, surface))))"

text \<open>The source colour of a span: \<^verbatim>\<open>color\<close> at full coverage, else scaled by it.\<close>

definition span_src :: "SwPixelOps \<Rightarrow> u32 \<Rightarrow> SwSpan \<Rightarrow> u32" where
  "span_src P color spn =
     (if coverage spn = 255 then color else ALPHA_BLEND P color (ucast (coverage spn)))"

text \<open>The element index \<^verbatim>\<open>span->y * cstride + span->x\<close>, computed in 32 bits.\<close>

definition span_index :: "u32 \<Rightarrow> SwSpan \<Rightarrow> int" where
  "span_index cstride spn = uint (scast (span_y spn) * cstride + scast (span_x spn) :: u32)"

text \<open>One span of the add, subtract and difference branches of \<^verbatim>\<open>_rasterMaskedRle\<close>:
  \<open>f src\<close> rewrites each of the \<^verbatim>\<open>span->len\<close> pixels.\<close>

definition span_update ::
    "SwPixelOps \<Rightarrow> (u32 \<Rightarrow> u32 \<Rightarrow> u32) \<Rightarrow> u32 \<Rightarrow> u32 \<Rightarrow> SwSpan \<Rightarrow> buf32 \<Rightarrow> buf32" where
  "span_update P f color cstride spn buf =
     (let cmp = span_index cstride spn;
          src = span_src P color spn
      in for_loop (unat (span_len spn)) (\<lambda>x b.
           store b (cmp + int x) (f src (load b (cmp + int x)))) buf)"

text \<open>The \<^verbatim>\<open>IntersectMask\<close> branch of \<^verbatim>\<open>_rasterMaskedRle\<close>, repeated by the masked
  gradient RLE routine: the \<^verbatim>\<open>while\<close> loop of row \<open>y\<close>, whose first element is at
  offset \<open>cmp\<close>. \<open>k\<close> is the position of the \<^verbatim>\<open>span\<close> pointer in the span array and
  \<open>run spn x\<close> the statement that handles a matching span. \<open>intersect_rle_rows\<close> is
  the loop over the rows of the bbox around it.\<close>

partial_function (option) intersect_rle_x ::
    "(SwSpan \<Rightarrow> u32 \<Rightarrow> buf32 \<Rightarrow> buf32) \<Rightarrow> (nat \<Rightarrow> SwSpan) \<Rightarrow> int \<Rightarrow> int \<Rightarrow> u32 \<Rightarrow> u32 \<Rightarrow> nat
       \<Rightarrow> buf32 \<Rightarrow> (nat \<times> buf32) option" where
  "intersect_rle_x run sp bmax_x cmp y x k buf =
     (if uint x < bmax_x then
        (if y = scast (span_y (sp k)) \<and> x = scast (span_x (sp k))
             \<and> uint (x + ucast (span_len (sp k))) \<le> bmax_x then
           intersect_rle_x run sp bmax_x cmp y (x + ucast (span_len (sp k))) (Suc k)
             (run (sp k) x buf)
         else intersect_rle_x run sp bmax_x cmp y (x + 1) k (store buf (cmp + uint x) 0))
      else Some (k, buf))"

definition intersect_rle_rows ::
    "(int \<Rightarrow> SwSpan \<Rightarrow> u32 \<Rightarrow> buf32 \<Rightarrow> buf32) \<Rightarrow> SwRleData \<Rightarrow> SwBBox \<Rightarrow> u32 \<Rightarrow> buf32
       \<Rightarrow> buf32 option" where
  "intersect_rle_rows run rle cbbox cstride cbuf =
     map_option snd
       (Option.bind (rounds_u32 (of_int (min_y cbbox)) (max_y cbbox)) (\<lambda>n.
          for_loop_opt n (\<lambda>j (k, buf).
            let y = (of_int (min_y cbbox) + of_nat j :: u32)
            in intersect_rle_x (run (uint (y * cstride))) (spans rle) (max_x cbbox)
                 (uint (y * cstride)) y (of_int (min_x cbbox)) k buf)
          (0, cbuf)))"

text \<open>\<^verbatim>\<open>_rasterMaskedRle\<close>.\<close>

definition rasterMaskedRle ::
    "SwPixelOps \<Rightarrow> SwSurface \<Rightarrow> SwRleData \<Rightarrow> u8 \<Rightarrow> u8 \<Rightarrow> u8 \<Rightarrow> u8
       \<Rightarrow> (bool \<times> SwSurface) outcome" where
  "rasterMaskedRle P surface rle r g b a =
     (if channelSize surface \<noteq> 4 then Done (False, surface)
      else case compositor surface of None \<Rightarrow> Fault | Some cmp \<Rightarrow>
       (case join (blender surface) of None \<Rightarrow> Fault | Some j \<Rightarrow>
        (let cbuf = ibuf32 (image cmp);
             cstride = istride (image cmp);
             color = apply_join j r g b a;
             method = cmethod cmp;
             finish = (\<lambda>cbuf'.
               let cmp' = cmp\<lparr>image := (image cmp)\<lparr>ibuf32 := cbuf'\<rparr>\<rparr>;
                   surface' = surface\<lparr>compositor := Some cmp'\<rparr>
               in Done (rasterDirectRGBAImage P surface' (image cmp') (bbox cmp') 255));
             each = (\<lambda>f. for_loop (unat (rsize rle)) (\<lambda>i.
                       span_update P f color cstride (spans rle i)) cbuf)
         in if method = AddMask then
              finish (each (\<lambda>src c. src + ALPHA_BLEND P c (IALPHA_of src)))
            else if method = SubtractMask then
              finish (each (\<lambda>src c. ALPHA_BLEND P c (IALPHA_of src)))
            else if method = IntersectMask then
              (case intersect_rle_rows
                      (\<lambda>row spn x. for_loop (unat (span_len spn)) (\<lambda>i b.
                         store b (row + uint (x + of_nat i))
                           (ALPHA_BLEND P (load b (row + uint (x + of_nat i)))
                              (ALPHA_of (span_src P color spn)))))
                      rle (bbox cmp) cstride cbuf
               of None \<Rightarrow> Hang | Some cbuf' \<Rightarrow> finish cbuf')
            else if method = DifferenceMask then
              finish (each (\<lambda>src c.
                        ALPHA_BLEND P src (IALPHA_of c) + ALPHA_BLEND P c (IALPHA_of src)))
            else Done (False, surface))))"

section \<open>Direct image draw through an RLE clip\<close>

text \<open>\<^verbatim>\<open>_rasterDirectRleRGBAImage\<close>: when the combined alpha is 255 the span writes the
  single destination element \<^verbatim>\<open>*dst\<close>.\<close>

definition rasterDirectRleRGBAImage ::
    "SwPixelOps \<Rightarrow> SwSurface \<Rightarrow> SwImage \<Rightarrow> u32 \<Rightarrow> (bool \<times> SwSurface) outcome" where
  "rasterDirectRleRGBAImage P surface img opacity =
     (case irle img of None \<Rightarrow> Fault | Some rle \<Rightarrow>
        Done (True, surface\<lparr>buf32 :=
          for_loop (unat (rsize rle)) (\<lambda>i buf.
            let spn = spans rle i;
                dst = span_index (stride surface) spn;
                im = uint (of_int (sint (span_y spn) + oy img) * istride img :: u32)
                       + (sint (span_x spn) + ox img);
                alpha = MULTIPLY P (ucast (coverage spn)) opacity
            in if alpha = 255 then
                 store buf dst (load (ibuf32 img) im
                                  + ALPHA_BLEND P (load buf dst) (IALPHA_of (load (ibuf32 img) im)))
               else
                 for_loop (unat (span_len spn)) (\<lambda>x b.
                   let src = ALPHA_BLEND P (load (ibuf32 img) (im + int x)) alpha
                   in store b (dst + int x)
                        (src + ALPHA_BLEND P (load b (dst + int x)) (IALPHA_of src))) buf)
          (buf32 surface)\<rparr>))"

section \<open>Box-filter down-sampler\<close>

text \<open>The rounds of \<^verbatim>\<open>for (auto i = a; i < b; ++i)\<close> over 32-bit unsigned counters.\<close>

definition rounds_lt :: "u32 \<Rightarrow> u32 \<Rightarrow> nat" where
  "rounds_lt a b = (if a < b then unat b - unat a else 0)"

type_synonym acc4 = "u32 \<times> u32 \<times> u32 \<times> u32"

definition accumulate :: "u32 \<Rightarrow> acc4 \<Rightarrow> acc4" where
  "accumulate p c =
     (case c of (c0, c1, c2, c3) \<Rightarrow>
        (c0 + drop_bit 24 p, c1 + (drop_bit 16 p AND 0xff), c2 + (drop_bit 8 p AND 0xff),
         c3 + (p AND 0xff)))"

text \<open>\<^verbatim>\<open>_interpDownScaler\<close>. The box bounds \<^verbatim>\<open>ry - n\<close>, \<^verbatim>\<open>ry + n\<close>, \<^verbatim>\<open>rx - n\<close> and
  \<^verbatim>\<open>rx + n\<close> are 32-bit unsigned values; \<open>src\<close> is the offset of the row pointer from
  \<^verbatim>\<open>img\<close>. The result is \<open>None\<close> when \<^verbatim>\<open>n * n\<close> is 0 in 32 bits (division by zero).\<close>

definition interpDownScaler ::
    "buf32 \<Rightarrow> u32 \<Rightarrow> u32 \<Rightarrow> u32 \<Rightarrow> u32 \<Rightarrow> u32 \<Rightarrow> u32 \<Rightarrow> u32 option" where
  "interpDownScaler img istr w h rx ry n =
     (let n2 = n * n;
          src0 = uint rx - uint n + uint ((ry - n) * istr);
          (src', c) =
            for_loop (rounds_lt (ry - n) (ry + n)) (\<lambda>j (src, c).
              let y = ry - n + of_nat j in
              if y \<ge> h then (src, c)
              else (src + uint istr,
                    for_loop (rounds_lt (rx - n) (rx + n)) (\<lambda>i c.
                      let x = rx - n + of_nat i in
                      if x \<ge> w then c else accumulate (load img (src + int i)) c) c))
              (src0, (0, 0, 0, 0))
      in if n2 = 0 then None
         else case c of (c0, c1, c2, c3) \<Rightarrow>
           Some (push_bit 24 (drop_bit 2 c0 div n2) OR push_bit 16 (drop_bit 2 c1 div n2)
                 OR push_bit 8 (drop_bit 2 c2 div n2) OR (drop_bit 2 c3 div n2)))"

text \<open>
  The down-sampler as the specification words it: per channel, the sum of the samples at
  the integer coordinates of \<open>[rx - n, rx + n) \<times> [ry - n, ry + n)\<close> that lie inside
  \<open>[0, w) \<times> [0, h)\<close>, floor-divided by \<open>4 * n\<^sup>2\<close>. Channel \<open>k\<close> is byte \<open>k\<close> of the word.
\<close>

definition box_sum :: "buf32 \<Rightarrow> int \<Rightarrow> int \<Rightarrow> int \<Rightarrow> int \<Rightarrow> int \<Rightarrow> int \<Rightarrow> nat \<Rightarrow> nat" where
  "box_sum img istr w h rx ry n k =
     (\<Sum>y \<leftarrow> [ry - n..ry + n - 1]. \<Sum>x \<leftarrow> [rx - n..rx + n - 1].
        if 0 \<le> x \<and> x < w \<and> 0 \<le> y \<and> y < h
        then unat (load img (x + y * istr)) div 256 ^ k mod 256 else 0)"

definition downscale_spec :: "buf32 \<Rightarrow> int \<Rightarrow> int \<Rightarrow> int \<Rightarrow> int \<Rightarrow> int \<Rightarrow> int \<Rightarrow> nat" where
  "downscale_spec img istr w h rx ry n =
     (box_sum img istr w h rx ry n 3 div nat (4 * n * n)) * 16777216
     + (box_sum img istr w h rx ry n 2 div nat (4 * n * n)) * 65536
     + (box_sum img istr w h rx ry n 1 div nat (4 * n * n)) * 256
     + (box_sum img istr w h rx ry n 0 div nat (4 * n * n))"

section \<open>Gradient fills\<close>

text \<open>
  \<^verbatim>\<open>SwFill\<close>, with the fields the rasterizer itself reads: \<^verbatim>\<open>fill->linear.len\<close>,
  \<^verbatim>\<open>fill->radial.a\<close> and \<^verbatim>\<open>fill->translucent\<close>; the colour table stands for what only
  the span writers read. The two float parameters are read as real numbers (finite
  values), and \<^verbatim>\<open>FLT_EPSILON\<close> is \<open>2\<^sup>-\<^sup>2\<^sup>3\<close>. The struct is declared in the common
  header: \<^verbatim>\<open>linear\<close> and \<^verbatim>\<open>radial\<close> are two views of the fill's parameters, so for a
  radial fill \<open>linear_len\<close> is whatever the read of \<^verbatim>\<open>linear.len\<close> yields.
\<close>

record SwFill =
  linear_len :: real
  radial_a :: real
  translucent :: bool
  ctable :: buf32

definition FLT_EPSILON :: real where
  "FLT_EPSILON = 1 / 8388608"

text \<open>The blend operations handed to the span writers.\<close>

datatype SwBlendOp =
  opBlend | opAlphaBlend | opInterpolate | opAddMask | opSubMask | opIntMask | opDifMask

text \<open>
  The span writers \<^verbatim>\<open>fillLinear\<close> and \<^verbatim>\<open>fillRadial\<close> and the method
  \<^verbatim>\<open>blender.alpha\<close> are not among the sources: the routines take them as parameters.
  A writer gets the fill, the memory it writes and the offset of \<^verbatim>\<open>dst\<close> in it, then
  \<open>y\<close>, \<open>x\<close> and \<open>len\<close>, and returns the memory. The second form takes the blend
  operation and the coverage (\<open>None\<close> where the call passes none); the third takes the
  compositor memory and the byte offset of \<^verbatim>\<open>cmp\<close> in it, the alpha extractor, the
  channel size and the opacity.
\<close>

type_synonym span_writer = "SwFill \<Rightarrow> buf32 \<Rightarrow> int \<Rightarrow> u32 \<Rightarrow> u32 \<Rightarrow> u32 \<Rightarrow> buf32"
type_synonym op_writer =
  "SwFill \<Rightarrow> buf32 \<Rightarrow> int \<Rightarrow> u32 \<Rightarrow> u32 \<Rightarrow> u32 \<Rightarrow> SwBlendOp \<Rightarrow> u8 option \<Rightarrow> buf32"
type_synonym matte_writer =
  "SwFill \<Rightarrow> buf32 \<Rightarrow> int \<Rightarrow> u32 \<Rightarrow> u32 \<Rightarrow> u32 \<Rightarrow> buf32 \<Rightarrow> int \<Rightarrow> SwAlpha option \<Rightarrow> u8 \<Rightarrow> u8
     \<Rightarrow> buf32"

record SwFillWriters =
  fillLinear :: span_writer
  fillLinearOp :: op_writer
  fillLinearMatted :: matte_writer
  fillRadial :: span_writer
  fillRadialOp :: op_writer
  fillRadialMatted :: matte_writer
  blender_alpha :: "SwBlender \<Rightarrow> CompositeMethod \<Rightarrow> SwAlpha option"

text \<open>\<^verbatim>\<open>_compositing\<close> and \<^verbatim>\<open>_matting\<close>.\<close>

definition compositing :: "SwSurface \<Rightarrow> bool" where
  "compositing surface =
     (case compositor surface of None \<Rightarrow> False
      | Some cmp \<Rightarrow> \<not> method_int (cmethod cmp) \<le> method_int ClipPath)"

definition matting :: "SwCompositor \<Rightarrow> bool" where
  "matting cmp = (method_int (cmethod cmp) < method_int AddMask)"

text \<open>Rows of a rectangle written by a span writer, the row pointer advancing by
  \<open>step\<close> elements: \<^verbatim>\<open>for (y = 0; y < h; ++y) { fill(buffer, region.min.y + y,
  region.min.x, w); buffer += step; }\<close>.\<close>

definition fill_rows ::
    "(buf32 \<Rightarrow> int \<Rightarrow> u32 \<Rightarrow> u32 \<Rightarrow> u32 \<Rightarrow> buf32) \<Rightarrow> SwBBox \<Rightarrow> int \<Rightarrow> int \<Rightarrow> buf32 \<Rightarrow> buf32" where
  "fill_rows wr region base step buf =
     (let w = (of_int (max_x region - min_x region) :: u32);
          h = (of_int (max_y region - min_y region) :: u32)
      in for_loop (unat h) (\<lambda>y b.
           wr b (base + int y * step) (of_int (min_y region + int y)) (of_int (min_x region)) w)
         buf)"

text \<open>The body shared by \<^verbatim>\<open>_rasterLinearGradientMaskedRect\<close> and
  \<^verbatim>\<open>_rasterRadialGradientMaskedRect\<close> after their first test: \<open>F\<close> is the span writer
  they call and \<open>zero_len\<close> the length they zero in a row outside the region. In the add,
  subtract and difference branches the row pointer advances by \<^verbatim>\<open>surface->stride\<close>.\<close>

definition gradient_masked_rect ::
    "SwPixelOps \<Rightarrow> op_writer \<Rightarrow> (SwCompositor \<Rightarrow> u32 \<Rightarrow> u32) \<Rightarrow> SwSurface \<Rightarrow> SwBBox \<Rightarrow> SwFill
       \<Rightarrow> (bool \<times> SwSurface) outcome" where
  "gradient_masked_rect P F zero_len surface region fill =
     (case compositor surface of None \<Rightarrow> Fault | Some cmp \<Rightarrow>
        (let h = (of_int (max_y region - min_y region) :: u32);
             w = (of_int (max_x region - min_x region) :: u32);
             cstride = istride (image cmp);
             cbuffer = min_y region * uint cstride + min_x region;
             method = cmethod cmp;
             cbuf = ibuf32 (image cmp);
             finish = (\<lambda>cbuf'.
               let cmp' = cmp\<lparr>image := (image cmp)\<lparr>ibuf32 := cbuf'\<rparr>\<rparr>;
                   surface' = surface\<lparr>compositor := Some cmp'\<rparr>
               in Done (rasterDirectRGBAImage P surface' (image cmp') (bbox cmp') 255));
             rows = (\<lambda>op. fill_rows (\<lambda>b d y x len. F fill b d y x len op (Some 255))
                              region cbuffer (uint (stride surface)) cbuf)
         in if method = AddMask then finish (rows opAddMask)
            else if method = SubtractMask then finish (rows opSubMask)
            else if method = IntersectMask then
              (case intersect_y
                      (\<lambda>y2 tmp x b. F fill b tmp y2 (of_int x) w opIntMask (Some 255))
                      (zero_len cmp w) w h region (bbox cmp) cstride (of_int (min_y (bbox cmp)))
                      cbuf
               of None \<Rightarrow> Hang | Some cbuf' \<Rightarrow> finish cbuf')
            else if method = DifferenceMask then finish (rows opDifMask)
            else Done (False, surface)))"

text \<open>The body shared by the two matted gradient rectangles after their first test.\<close>

definition gradient_matted_rect ::
    "SwFillWriters \<Rightarrow> matte_writer \<Rightarrow> SwSurface \<Rightarrow> SwBBox \<Rightarrow> SwFill
       \<Rightarrow> (bool \<times> SwSurface) outcome" where
  "gradient_matted_rect W F surface region fill =
     (case compositor surface of None \<Rightarrow> Fault | Some cmp \<Rightarrow>
        (let buffer = min_y region * uint (stride surface) + min_x region;
             h = (of_int (max_y region - min_y region) :: u32);
             w = (of_int (max_x region - min_x region) :: u32);
             csize = ichannelSize (image cmp);
             cbuffer = (min_y region * uint (istride (image cmp)) + min_x region) * uint csize;
             alpha = blender_alpha W (blender surface) (cmethod cmp)
         in Done (True, surface\<lparr>buf32 :=
              for_loop (unat h) (\<lambda>y b.
                F fill b (buffer + int y * uint (stride surface)) (of_int (min_y region + int y))
                  (of_int (min_x region)) w (ibuf32 (image cmp))
                  (cbuffer + int y * uint (stride surface * ucast csize)) alpha csize 255)
              (buf32 surface)\<rparr>)))"

subsection \<open>Linear gradient on a rectangle\<close>

definition rasterLinearGradientMaskedRect ::
    "SwPixelOps \<Rightarrow> SwFillWriters \<Rightarrow> SwSurface \<Rightarrow> SwBBox \<Rightarrow> SwFill
       \<Rightarrow> (bool \<times> SwSurface) outcome" where
  "rasterLinearGradientMaskedRect P W surface region fill =
     (if linear_len fill < FLT_EPSILON then Done (False, surface)
      else gradient_masked_rect P (fillLinearOp W)
             (\<lambda>cmp w. of_int (max_x (bbox cmp) - min_x (bbox cmp))) surface region fill)"

definition rasterLinearGradientMattedRect ::
    "SwFillWriters \<Rightarrow> SwSurface \<Rightarrow> SwBBox \<Rightarrow> SwFill \<Rightarrow> (bool \<times> SwSurface) outcome" where
  "rasterLinearGradientMattedRect W surface region fill =
     (if linear_len fill < FLT_EPSILON then Done (False, surface)
      else gradient_matted_rect W (fillLinearMatted W) surface region fill)"

definition rasterTranslucentLinearGradientRect ::
    "SwFillWriters \<Rightarrow> SwSurface \<Rightarrow> SwBBox \<Rightarrow> SwFill \<Rightarrow> bool \<times> SwSurface" where
  "rasterTranslucentLinearGradientRect W surface region fill =
     (if linear_len fill < FLT_EPSILON then (False, surface)
      else (True, surface\<lparr>buf32 :=
              fill_rows (\<lambda>b d y x len. fillLinearOp W fill b d y x len opBlend None) region
                (min_y region * uint (stride surface) + min_x region) (uint (stride surface))
                (buf32 surface)\<rparr>))"

definition rasterSolidLinearGradientRect ::
    "SwFillWriters \<Rightarrow> SwSurface \<Rightarrow> SwBBox \<Rightarrow> SwFill \<Rightarrow> bool \<times> SwSurface" where
  "rasterSolidLinearGradientRect W surface region fill =
     (if linear_len fill < FLT_EPSILON then (False, surface)
      else (True, surface\<lparr>buf32 :=
              for_loop (unat (of_int (max_y region - min_y region) :: u32)) (\<lambda>y b.
                fillLinear W fill b
                  (min_y region * uint (stride surface) + min_x region
                     + uint (of_nat y * stride surface))
                  (of_int (min_y region + int y)) (of_int (min_x region))
                  (of_int (max_x region - min_x region)))
              (buf32 surface)\<rparr>))"

text \<open>\<^verbatim>\<open>_rasterLinearGradientRect\<close>: the call of the solid rasterizer is a statement
  without \<^verbatim>\<open>return\<close>; control reaches the final \<^verbatim>\<open>return false\<close>.\<close>

definition rasterLinearGradientRect ::
    "SwPixelOps \<Rightarrow> SwFillWriters \<Rightarrow> SwSurface \<Rightarrow> SwBBox \<Rightarrow> SwFill
       \<Rightarrow> (bool \<times> SwSurface) outcome" where
  "rasterLinearGradientRect P W surface region fill =
     (if compositing surface then
        (case compositor surface of None \<Rightarrow> Fault | Some cmp \<Rightarrow>
           if matting cmp then rasterLinearGradientMattedRect W surface region fill
           else rasterLinearGradientMaskedRect P W surface region fill)
      else if translucent fill then
        Done (rasterTranslucentLinearGradientRect W surface region fill)
      else Done (False, snd (rasterSolidLinearGradientRect W surface region fill)))"

subsection \<open>Radial gradient on a rectangle\<close>

text \<open>The masked routine tests \<^verbatim>\<open>fill->linear.len\<close>.\<close>

definition rasterRadialGradientMaskedRect ::
    "SwPixelOps \<Rightarrow> SwFillWriters \<Rightarrow> SwSurface \<Rightarrow> SwBBox \<Rightarrow> SwFill
       \<Rightarrow> (bool \<times> SwSurface) outcome" where
  "rasterRadialGradientMaskedRect P W surface region fill =
     (if linear_len fill < FLT_EPSILON then Done (False, surface)
      else gradient_masked_rect P (fillRadialOp W) (\<lambda>cmp w. w) surface region fill)"

definition rasterRadialGradientMattedRect ::
    "SwFillWriters \<Rightarrow> SwSurface \<Rightarrow> SwBBox \<Rightarrow> SwFill \<Rightarrow> (bool \<times> SwSurface) outcome" where
  "rasterRadialGradientMattedRect W surface region fill =
     (if radial_a fill < FLT_EPSILON then Done (False, surface)
      else gradient_matted_rect W (fillRadialMatted W) surface region fill)"

definition rasterTranslucentRadialGradientRect ::
    "SwFillWriters \<Rightarrow> SwSurface \<Rightarrow> SwBBox \<Rightarrow> SwFill \<Rightarrow> bool \<times> SwSurface" where
  "rasterTranslucentRadialGradientRect W surface region fill =
     (if radial_a fill < FLT_EPSILON then (False, surface)
      else (True, surface\<lparr>buf32 :=
              fill_rows (\<lambda>b d y x len. fillRadialOp W fill b d y x len opBlend None) region
                (min_y region * uint (stride surface) + min_x region) (uint (stride surface))
                (buf32 surface)\<rparr>))"

definition rasterSolidRadialGradientRect ::
    "SwFillWriters \<Rightarrow> SwSurface \<Rightarrow> SwBBox \<Rightarrow> SwFill \<Rightarrow> bool \<times> SwSurface" where
  "rasterSolidRadialGradientRect W surface region fill =
     (if radial_a fill < FLT_EPSILON then (False, surface)
      else (True, surface\<lparr>buf32 :=
              for_loop (unat (of_int (max_y region - min_y region) :: u32)) (\<lambda>y b.
                fillRadial W fill b
                  (min_y region * uint (stride surface) + min_x region
                     + uint (of_nat y * stride surface))
                  (of_int (min_y region + int y)) (of_int (min_x region))
                  (of_int (max_x region - min_x region)))
              (buf32 surface)\<rparr>))"

definition rasterRadialGradientRect ::
    "SwPixelOps \<Rightarrow> SwFillWriters \<Rightarrow> SwSurface \<Rightarrow> SwBBox \<Rightarrow> SwFill
       \<Rightarrow> (bool \<times> SwSurface) outcome" where
  "rasterRadialGradientRect P W surface region fill =
     (if compositing surface then
        (case compositor surface of None \<Rightarrow> Fault | Some cmp \<Rightarrow>
           if matting cmp then rasterRadialGradientMattedRect W surface region fill
           else rasterRadialGradientMaskedRect P W surface region fill)
      else if translucent fill then
        Done (rasterTranslucentRadialGradientRect W surface region fill)
      else Done (rasterSolidRadialGradientRect W surface region fill))"

subsection \<open>Radial gradient on RLE spans\<close>

text \<open>\<^verbatim>\<open>_rasterRadialGradientMaskedRle\<close> tests \<^verbatim>\<open>fill->linear.len\<close> and calls
  \<^verbatim>\<open>fillLinear\<close>; in its intersect branch the writer gets the row pointer \<^verbatim>\<open>cmp\<close>.\<close>

definition rasterRadialGradientMaskedRle ::
    "SwPixelOps \<Rightarrow> SwFillWriters \<Rightarrow> SwSurface \<Rightarrow> SwRleData \<Rightarrow> SwFill
       \<Rightarrow> (bool \<times> SwSurface) outcome" where
  "rasterRadialGradientMaskedRle P W surface rle fill =
     (if linear_len fill < FLT_EPSILON then Done (False, surface)
      else case compositor surface of None \<Rightarrow> Fault | Some cmp \<Rightarrow>
        (let cstride = istride (image cmp);
             cbuf = ibuf32 (image cmp);
             method = cmethod cmp;
             finish = (\<lambda>cbuf'.
               let cmp' = cmp\<lparr>image := (image cmp)\<lparr>ibuf32 := cbuf'\<rparr>\<rparr>;
                   surface' = surface\<lparr>compositor := Some cmp'\<rparr>
               in Done (rasterDirectRGBAImage P surface' (image cmp') (bbox cmp') 255));
             each = (\<lambda>op. for_loop (unat (rsize rle)) (\<lambda>i b.
                       let spn = spans rle i
                       in fillLinearOp W fill b (span_index cstride spn) (scast (span_y spn))
                            (scast (span_x spn)) (ucast (span_len spn)) op
                            (Some (coverage spn))) cbuf)
         in if method = AddMask then finish (each opAddMask)
            else if method = SubtractMask then finish (each opSubMask)
            else if method = IntersectMask then
              (case intersect_rle_rows
                      (\<lambda>row spn x b. fillLinearOp W fill b row (scast (span_y spn))
                         (scast (span_x spn)) (ucast (span_len spn)) opIntMask
                         (Some (coverage spn)))
                      rle (bbox cmp) cstride cbuf
               of None \<Rightarrow> Hang | Some cbuf' \<Rightarrow> finish cbuf')
            else if method = DifferenceMask then finish (each opDifMask)
            else Done (False, surface)))"

definition rasterRadialGradientMattedRle ::
    "SwFillWriters \<Rightarrow> SwSurface \<Rightarrow> SwRleData \<Rightarrow> SwFill \<Rightarrow> (bool \<times> SwSurface) outcome" where
  "rasterRadialGradientMattedRle W surface rle fill =
     (if radial_a fill < FLT_EPSILON then Done (False, surface)
      else case compositor surface of None \<Rightarrow> Fault | Some cmp \<Rightarrow>
        (let csize = ichannelSize (image cmp);
             alpha = blender_alpha W (blender surface) (cmethod cmp)
         in Done (True, surface\<lparr>buf32 :=
              for_loop (unat (rsize rle)) (\<lambda>i b.
                let spn = spans rle i
                in fillRadialMatted W fill b (span_index (stride surface) spn)
                     (scast (span_y spn)) (scast (span_x spn)) (ucast (span_len spn))
                     (ibuf32 (image cmp))
                     (uint ((scast (span_y spn) * istride (image cmp) + scast (span_x spn))
                              * ucast csize :: u32))
                     alpha csize (coverage spn))
              (buf32 surface)\<rparr>)))"

definition rasterTranslucentRadialGradientRle ::
    "SwFillWriters \<Rightarrow> SwSurface \<Rightarrow> SwRleData \<Rightarrow> SwFill \<Rightarrow> bool \<times> SwSurface" where
  "rasterTranslucentRadialGradientRle W surface rle fill =
     (if radial_a fill < FLT_EPSILON then (False, surface)
      else (True, surface\<lparr>buf32 :=
              for_loop (unat (rsize rle)) (\<lambda>i b.
                let spn = spans rle i;
                    dst = span_index (stride surface) spn
                in if coverage spn = 255 then
                     fillRadialOp W fill b dst (scast (span_y spn)) (scast (span_x spn))
                       (ucast (span_len spn)) opBlend None
                   else
                     fillRadialOp W fill b dst (scast (span_y spn)) (scast (span_x spn))
                       (ucast (span_len spn)) opAlphaBlend (Some (coverage spn)))
              (buf32 surface)\<rparr>))"

definition rasterSolidRadialGradientRle ::
    "SwFillWriters \<Rightarrow> SwSurface \<Rightarrow> SwRleData \<Rightarrow> SwFill \<Rightarrow> bool \<times> SwSurface" where
  "rasterSolidRadialGradientRle W surface rle fill =
     (if radial_a fill < FLT_EPSILON then (False, surface)
      else (True, surface\<lparr>buf32 :=
              for_loop (unat (rsize rle)) (\<lambda>i b.
                let spn = spans rle i;
                    dst = span_index (stride surface) spn
                in if coverage spn = 255 then
                     fillRadial W fill b dst (scast (span_y spn)) (scast (span_x spn))
                       (ucast (span_len spn))
                   else
                     fillRadialOp W fill b dst (scast (span_y spn)) (scast (span_x spn))
                       (ucast (span_len spn)) opInterpolate (Some (coverage spn)))
              (buf32 surface)\<rparr>))"

text \<open>\<^verbatim>\<open>_rasterRadialGradientRle\<close>: here the call of the translucent rasterizer is the
  statement without \<^verbatim>\<open>return\<close>.\<close>

definition rasterRadialGradientRle ::
    "SwPixelOps \<Rightarrow> SwFillWriters \<Rightarrow> SwSurface \<Rightarrow> SwRleData option \<Rightarrow> SwFill
       \<Rightarrow> (bool \<times> SwSurface) outcome" where
  "rasterRadialGradientRle P W surface rle_opt fill =
     (case rle_opt of None \<Rightarrow> Done (False, surface) | Some rle \<Rightarrow>
        if compositing surface then
          (case compositor surface of None \<Rightarrow> Fault | Some cmp \<Rightarrow>
             if matting cmp then rasterRadialGradientMattedRle W surface rle fill
             else rasterRadialGradientMaskedRle P W surface rle fill)
        else if translucent fill then
          Done (False, snd (rasterTranslucentRadialGradientRle W surface rle fill))
        else Done (rasterSolidRadialGradientRle W surface rle fill))"

section \<open>Composite contexts of the renderer\<close>

text \<open>
  \<^verbatim>\<open>tvgSwRenderer.cpp\<close> uses its own layout of the surface: a \<^verbatim>\<open>buffer\<close> pointer,
  \<^verbatim>\<open>stride\<close>, \<^verbatim>\<open>w\<close>, \<^verbatim>\<open>h\<close>, \<^verbatim>\<open>cs\<close> and the blender \<^verbatim>\<open>comp\<close>. The context's surface
  buffer points into the context's image data, so memory is an explicit store here: a
  pointer is a block and an element offset in it, the heap maps a block to its contents.
  The renderer's \<^verbatim>\<open>mainSurface\<close> pointer is modelled by the surface it points to.
\<close>

datatype ptr = Null | Ptr nat nat

record RSurface =
  buffer :: ptr
  rstride :: u32
  rw :: u32
  rh :: u32
  rcs :: u32
  comp :: SwBlender

record RImage =
  rdata :: ptr
  riw :: u32
  rih :: u32
  rbbox :: SwBBox

record CompositeCtx =
  ctx_surface :: RSurface
  ctx_recover :: RSurface
  ctx_image :: RImage

record SwRenderer =
  mainSurface :: RSurface
  heap :: "nat \<Rightarrow> buf32"

text \<open>Pointer arithmetic \<^verbatim>\<open>p + n\<close>.\<close>

fun ptr_add :: "ptr \<Rightarrow> nat \<Rightarrow> ptr" where
  "ptr_add Null n = Null"
| "ptr_add (Ptr blk off) n = Ptr blk (off + n)"

text \<open>Modelled from the spec: the one-argument \<^verbatim>\<open>rasterClear\<close> that the renderer calls
  is not among the sources. \<open>clear\<close> zeros a rectangle and uses a fast row store when
  \<open>w = stride\<close>; here the rectangle is the surface's own \<open>w \<times> h\<close> from its buffer
  pointer, and the call fails on a null buffer or a zero dimension.\<close>

definition rasterClear1 :: "RSurface \<Rightarrow> (nat \<Rightarrow> buf32) \<Rightarrow> bool \<times> (nat \<Rightarrow> buf32)" where
  "rasterClear1 surface hp =
     (case buffer surface of
        Null \<Rightarrow> (False, hp)
      | Ptr blk off \<Rightarrow>
          if rstride surface = 0 \<or> rw surface = 0 \<or> rh surface = 0 then (False, hp)
          else if rw surface = rstride surface then
            (True, hp(blk := rasterRGBA32 (hp blk) (int off) 0x00000000 0
                               (rw surface * rh surface)))
          else
            (True, hp(blk := for_loop (unat (rh surface)) (\<lambda>i b.
                      rasterRGBA32 b (int off + uint (rstride surface * of_nat i)) 0x00000000 0
                        (rw surface)) (hp blk))))"

text \<open>
  \<^verbatim>\<open>SwRenderer::beginComposite\<close>. \<open>new_ok\<close> tells whether \<^verbatim>\<open>new CompositeCtx\<close> yields
  an object and \<open>malloc\<close> is the allocator: from the size in bytes to the pointer it
  returns (\<open>Null\<close> on failure). The result is the context (\<open>None\<close> for \<^verbatim>\<open>nullptr\<close>) and
  the renderer after the call.
\<close>

definition beginComposite ::
    "SwRenderer \<Rightarrow> u32 \<Rightarrow> u32 \<Rightarrow> u32 \<Rightarrow> u32 \<Rightarrow> bool \<Rightarrow> (nat \<Rightarrow> ptr)
       \<Rightarrow> CompositeCtx option \<times> SwRenderer" where
  "beginComposite r x y w h new_ok malloc =
     (if \<not> new_ok then (None, r)
      else
        let main = mainSurface r;
            dat = malloc (4 * unat (rw main) * unat (rh main))
        in if dat = Null then (None, r)
           else
             let x1 = (if x < 0 then 0 else x);
                 y1 = (if y < 0 then 0 else y);
                 w1 = (if x1 + w > rw main then rw main - x1 else w);
                 h1 = (if y1 + h > rh main then rh main - y1 else h);
                 x2 = (0 :: u32);
                 y2 = (0 :: u32);
                 w2 = rw main;
                 h2 = rh main;
                 img = \<lparr>rdata = dat, riw = rw main, rih = rh main,
                          rbbox = \<lparr>min_x = uint x2, min_y = uint y2, max_x = uint (x2 + w2),
                                    max_y = uint (y2 + h2)\<rparr>\<rparr>;
                 surface0 = \<lparr>buffer = ptr_add dat (unat (rw main * y2 + x2)),
                               rstride = rw main, rw = w2, rh = h2, rcs = rcs main,
                               comp = comp main\<rparr>;
                 hp = snd (rasterClear1 surface0 (heap r));
                 surface1 = surface0\<lparr>buffer := dat, rw := riw img, rh := rih img\<rparr>;
                 ctx = \<lparr>ctx_surface = surface1, ctx_recover = main, ctx_image = img\<rparr>
             in (Some ctx, r\<lparr>mainSurface := surface1, heap := hp\<rparr>))"

section \<open>Reference values and example inputs\<close>

text \<open>
  The value of an opaque pixel after premultiplication, read as a number: the alpha byte
  stays 255 and a colour byte \<open>v\<close> becomes \<open>v * 255 div 256\<close>. The argument is
  the pixel word as a number, bytes from the least significant: blue/red, green, red/blue,
  alpha.
\<close>

definition opaque_round_trip :: "nat \<Rightarrow> nat" where
  "opaque_round_trip p =
     255 * 16777216 + (p div 65536 mod 256 * 255 div 256) * 65536
       + (p div 256 mod 256 * 255 div 256) * 256 + (p mod 256 * 255 div 256)"

definition no_blender :: SwBlender where
  "no_blender = \<lparr>join = None, alphas = (\<lambda>_. None)\<rparr>"

text \<open>A 2 x 1 colour surface: an opaque white pixel and a fully transparent one.\<close>

definition px_surface :: SwSurface where
  "px_surface = \<lparr>buf32 = (\<lambda>i. if i = 0 then 0xFFFFFFFF else 0x00123456), stride = 2, sw = 2,
     sh = 1, cs = ABGR8888S, channelSize = 4, premultiplied = False, blender = no_blender,
     compositor = None\<rparr>"

text \<open>A surface whose colour-space tag is none of the four supported ones, with no
  blender function set.\<close>

definition gray_surface :: SwSurface where
  "gray_surface = \<lparr>buf32 = (\<lambda>_. 0), stride = 4, sw = 4, sh = 4, cs = OtherCS 4,
     channelSize = 1, premultiplied = False, blender = no_blender, compositor = None\<rparr>"

text \<open>Modelled from the spec: an instance of the two macros for the examples below (their
  definitions are in the common header, not among the sources). \<open>alpha_blend\<close> multiplies
  each byte by \<open>a\<close> with a shift by 8, exact at \<open>a = 255\<close> and \<open>a = 0\<close>
  (\<open>blend(c, 255) = c\<close>, \<open>blend(c, 0) = 0\<close>); \<open>MULTIPLY\<close> does the same on one
  byte.\<close>

definition ref_ops :: SwPixelOps where
  "ref_ops = \<lparr>ALPHA_BLEND = (\<lambda>c a.
       ((((drop_bit 8 c) AND 0x00ff00ff) * a + 0x00ff00ff) AND 0xff00ff00)
       + (drop_bit 8 ((c AND 0x00ff00ff) * a + 0x00ff00ff) AND 0x00ff00ff)),
     MULTIPLY = (\<lambda>c a. drop_bit 8 (c * a + 0xff))\<rparr>"

text \<open>What a call left behind: its return value, a pixel of the compositor buffer, a pixel
  of the destination.\<close>

definition returned :: "(bool \<times> SwSurface) outcome \<Rightarrow> bool option" where
  "returned res = (case res of Done (ok, s) \<Rightarrow> Some ok | _ \<Rightarrow> None)"

definition cmp_pixel :: "(bool \<times> SwSurface) outcome \<Rightarrow> nat \<Rightarrow> u32 option" where
  "cmp_pixel res i =
     (case res of Done (ok, s) \<Rightarrow> map_option (\<lambda>c. ibuf32 (image c) i) (compositor s)
      | _ \<Rightarrow> None)"

definition dst_pixel :: "(bool \<times> SwSurface) outcome \<Rightarrow> nat \<Rightarrow> u32 option" where
  "dst_pixel res i = (case res of Done (ok, s) \<Rightarrow> Some (buf32 s i) | _ \<Rightarrow> None)"

text \<open>The elements a span covers in a buffer of row length \<open>cstride\<close>.\<close>

definition span_range :: "u32 \<Rightarrow> SwSpan \<Rightarrow> nat set" where
  "span_range cstride spn =
     {nat (span_index cstride spn) ..< nat (span_index cstride spn) + unat (span_len spn)}"

text \<open>A 3 x 3 opaque black surface without compositor; the same surface with a 3 x 3
  compositor whose buffer holds \<^verbatim>\<open>0xDEADBEEF\<close> everywhere and whose bbox is the whole
  surface; the one-pixel region in its middle.\<close>

definition cmp_image :: SwImage where
  "cmp_image = \<lparr>ibuf32 = (\<lambda>_. 0xDEADBEEF), istride = 3, iw = 3, ih = 3, ox = 0, oy = 0,
     ichannelSize = 4, irle = None\<rparr>"

definition plain_surface :: SwSurface where
  "plain_surface = \<lparr>buf32 = (\<lambda>_. 0xFF000000), stride = 3, sw = 3, sh = 3, cs = ABGR8888,
     channelSize = 4, premultiplied = True,
     blender = \<lparr>join = Some abgrJoin, alphas = (\<lambda>_. None)\<rparr>, compositor = None\<rparr>"

definition demo_compositor :: "CompositeMethod \<Rightarrow> SwCompositor" where
  "demo_compositor m = \<lparr>image = cmp_image,
     bbox = \<lparr>min_x = 0, min_y = 0, max_x = 3, max_y = 3\<rparr>, cmethod = m\<rparr>"

definition masked_surface :: "CompositeMethod \<Rightarrow> SwSurface" where
  "masked_surface m = plain_surface\<lparr>compositor := Some (demo_compositor m)\<rparr>"

definition mid_region :: SwBBox where
  "mid_region = \<lparr>min_x = 1, min_y = 1, max_x = 2, max_y = 2\<rparr>"

text \<open>Gradient fills: a proper opaque linear one; a radial one with \<open>a = 0\<close> whose
  \<^verbatim>\<open>linear.len\<close> reads 1; a radial one with \<open>a = 1\<close> whose \<^verbatim>\<open>linear.len\<close> reads 0.\<close>

definition solid_linear :: SwFill where
  "solid_linear = \<lparr>linear_len = 1, radial_a = 1, translucent = False, ctable = (\<lambda>_. 0)\<rparr>"

definition degenerate_radial :: SwFill where
  "degenerate_radial = \<lparr>linear_len = 1, radial_a = 0, translucent = False, ctable = (\<lambda>_. 0)\<rparr>"

definition proper_radial :: SwFill where
  "proper_radial = \<lparr>linear_len = 0, radial_a = 1, translucent = False, ctable = (\<lambda>_. 0)\<rparr>"

text \<open>One span of two pixels at full coverage, and an opaque white image clipped by it.\<close>

definition one_span :: SwRleData where
  "one_span = \<lparr>spans = (\<lambda>_. \<lparr>span_x = 0, span_y = 0, span_len = 2, coverage = 255\<rparr>),
     rsize = 1\<rparr>"

definition white_image :: SwImage where
  "white_image = \<lparr>ibuf32 = (\<lambda>_. 0xFFFFFFFF), istride = 3, iw = 3, ih = 3, ox = 0, oy = 0,
     ichannelSize = 4, irle = Some one_span\<rparr>"

text \<open>Two spans: two pixels of row 0 at full coverage, one pixel of row 1 at coverage 128.\<close>

definition two_spans :: SwRleData where
  "two_spans = \<lparr>spans = (\<lambda>k. if k = 0
       then \<lparr>span_x = 0, span_y = 0, span_len = 2, coverage = 255\<rparr>
       else \<lparr>span_x = 0, span_y = 1, span_len = 1, coverage = 128\<rparr>), rsize = 2\<rparr>"

text \<open>A renderer on a 2 x 2 main surface; every block of its heap holds \<^verbatim>\<open>0xDEADBEEF\<close>,
  and the allocator returns block 1.\<close>

definition demo_renderer :: SwRenderer where
  "demo_renderer = \<lparr>mainSurface = \<lparr>buffer = Ptr 0 0, rstride = 2, rw = 2, rh = 2, rcs = 0,
       comp = no_blender\<rparr>, heap = (\<lambda>_ _. 0xDEADBEEF)\<rparr>"

definition demo_malloc :: "nat \<Rightarrow> ptr" where
  "demo_malloc n = Ptr 1 0"

section \<open>Properties\<close>

subsection \<open>Loops\<close>

lemma for_loop_invariant:
  assumes "\<And>i s. i < n \<Longrightarrow> P s \<Longrightarrow> P (body i s)" "P s"
  shows "P (for_loop n body s)"
  using assms by (induction n) auto

lemma for_loop_cong:
  assumes "\<And>i s. i < n \<Longrightarrow> f i s = g i s"
  shows "for_loop n f s = for_loop n g s"
  using assms by (induction n) auto

text \<open>A loop that rewrites the elements \<open>base, \<dots>, base + n - 1\<close> one by one.\<close>

lemma for_loop_row_update:
  "for_loop n (\<lambda>x buf. buf(base + x := f (buf (base + x)))) buf i =
     (if base \<le> i \<and> i < base + n then f (buf i) else buf i)"
  by (induction n) auto

text \<open>Rows of \<open>n\<close> elements that start \<open>st\<close> apart do not overlap when \<open>n \<le> st\<close>:
  every element of the rectangle is rewritten once.\<close>

lemma for_loop_row_fill:
  "for_loop n (\<lambda>k b. b(base + k := v)) buf i =
     (if base \<le> i \<and> i < base + n then v else buf i)"
  by (induction n) auto

lemma for_loop_rect_update_base:
  assumes "n \<le> st"
  shows "for_loop m (\<lambda>y. for_loop n (\<lambda>x buf.
            buf(b0 + y * st + x := f (buf (b0 + y * st + x))))) buf i =
     (if \<exists>y<m. b0 + y * st \<le> i \<and> i < b0 + y * st + n then f (buf i) else buf i)"
proof (induction m)
  case 0 show ?case by simp
next
  case (Suc m)
  have disj: "\<not> (b0 + y * st \<le> i \<and> i < b0 + y * st + n)" if "y < m" "b0 + m * st \<le> i" for y
  proof -
    have "y * st + n \<le> y * st + st" using assms by simp
    also have "\<dots> = Suc y * st" by simp
    also have "\<dots> \<le> m * st" using that(1) by (intro mult_le_mono1) simp
    finally show ?thesis using that(2) by simp
  qed
  let ?F = "\<lambda>y. for_loop n (\<lambda>x buf. buf(b0 + y * st + x := f (buf (b0 + y * st + x))))"
  have step: "for_loop (Suc m) ?F buf i =
      (if b0 + m * st \<le> i \<and> i < b0 + m * st + n then f (for_loop m ?F buf i)
       else for_loop m ?F buf i)"
    by (simp add: for_loop_row_update)
  show ?case
  proof (cases "b0 + m * st \<le> i \<and> i < b0 + m * st + n")
    case True
    then have "\<not> (\<exists>y<m. b0 + y * st \<le> i \<and> i < b0 + y * st + n)" using disj by blast
    then have "for_loop m ?F buf i = buf i" by (simp only: Suc.IH if_False)
    then show ?thesis using True by (simp only: step Ex_less_Suc if_True simp_thms)
  next
    case False
    then show ?thesis by (simp only: step Ex_less_Suc if_False simp_thms Suc.IH)
  qed
qed

lemma for_loop_rect_update:
  assumes "n \<le> st"
  shows "for_loop m (\<lambda>y. for_loop n (\<lambda>x buf. buf(y * st + x := f (buf (y * st + x))))) buf i =
     (if \<exists>y<m. y * st \<le> i \<and> i < y * st + n then f (buf i) else buf i)"
  using for_loop_rect_update_base[OF assms, of m 0 f buf i] by simp

lemma in_rect:
  fixes x y m n st :: nat
  shows "y < m \<Longrightarrow> x < n \<Longrightarrow> \<exists>y'<m. y' * st \<le> y * st + x \<and> y * st + x < y' * st + n"
  by (rule exI[of _ y]) simp

text \<open>The 32-bit product \<^verbatim>\<open>stride * y\<close> does not wrap inside a buffer of fewer than
  \<open>2 ^ 32\<close> elements.\<close>

lemma unat_row_offset:
  assumes "unat (st::u32) * unat (h::u32) < 2 ^ 32" "y < unat h"
  shows "unat (st * of_nat y) = y * unat st"
proof -
  have "y * unat st \<le> unat h * unat st" using assms(2) by (intro mult_le_mono1) simp
  also have "\<dots> = unat st * unat h" by (rule mult.commute)
  also have "\<dots> < 2 ^ 32" by (rule assms(1))
  finally have "y * unat st < 2 ^ 32" .
  then have lt: "unat st * y < 2 ^ 32" by (simp only: mult.commute)
  have "y < 2 ^ 32" using assms(2) unsigned_less[of h, where 'a=nat] by simp
  then have "unat (of_nat y :: u32) = y" by (simp add: unat_of_nat)
  then have "unat (st * of_nat y) = (unat st * y) mod 2 ^ 32"
    by (simp add: unat_word_ariths)
  then show ?thesis using lt by (simp add: mult.commute)
qed

subsection \<open>Bytes of a pixel word\<close>

lemma mask_ff00: "(0xff00::u32) = push_bit 8 (mask 8)"
  by (simp add: mask_eq_exp_minus_1 push_bit_eq_mult)

lemma mask_ff000000: "(0xff000000::u32) = push_bit 24 (mask 8)"
  by (simp add: mask_eq_exp_minus_1 push_bit_eq_mult)

lemma mask_00ff00ff: "(0x00ff00ff::u32) = mask 8 OR push_bit 16 (mask 8)"
  by (simp add: mask_eq_exp_minus_1 push_bit_eq_mult)

lemma and_ff: "(x::u32) AND 0xff = take_bit 8 x"
  by (simp add: take_bit_eq_mask mask_eq_exp_minus_1)

lemma and_ff00: "(x::u32) AND 0xff00 = push_bit 8 (take_bit 8 (drop_bit 8 x))"
  unfolding mask_ff00 by (rule bit_word_eqI, auto simp add: bit_simps)

lemma and_ff000000: "(x::u32) AND 0xff000000 = push_bit 24 (drop_bit 24 x)"
  unfolding mask_ff000000 by (rule bit_word_eqI, auto simp add: bit_simps dest: bit_imp_le_length)

lemma and_00ff00ff:
  "(x::u32) AND 0x00ff00ff = take_bit 8 x + push_bit 16 (take_bit 8 (drop_bit 16 x))"
proof -
  have "(x::u32) AND 0x00ff00ff = take_bit 8 x OR push_bit 16 (take_bit 8 (drop_bit 16 x))"
    unfolding mask_00ff00ff by (rule bit_word_eqI, auto simp add: bit_simps)
  also have "\<dots> = take_bit 8 x + push_bit 16 (take_bit 8 (drop_bit 16 x))"
    by (rule disjunctive_add[symmetric]) (auto simp add: bit_simps)
  finally show ?thesis .
qed

lemma unat_lt32: "unat (x::u32) < 4294967296"
  using unsigned_less[of x, where 'a=nat] by simp

lemmas word_to_nat = unsigned_push_bit_eq unsigned_take_bit_eq unat_drop_bit_eq
lemmas bit_arith = take_bit_eq_mod drop_bit_eq_div push_bit_eq_mult

lemma unat_and_ff: "unat ((x::u32) AND 0xff) = unat x mod 256"
  by (simp only: and_ff word_to_nat) (simp add: bit_arith)

lemma unat_drop8: "unat (drop_bit 8 (x::u32)) = unat x div 256"
  by (simp only: word_to_nat) (simp add: bit_arith)

lemma unat_drop24: "unat (drop_bit 24 (x::u32)) = unat x div 16777216"
  by (simp only: word_to_nat) (simp add: bit_arith)

lemma unat_and_ff00: "unat ((x::u32) AND 0xff00) = 256 * (unat x div 256 mod 256)"
  by (simp only: and_ff00 word_to_nat) (simp add: bit_arith)

lemma unat_and_ff000000: "unat ((x::u32) AND 0xff000000) = 16777216 * (unat x div 16777216)"
  using unat_lt32[of x] by (simp only: and_ff000000 word_to_nat) (simp add: bit_arith)

lemma unat_and_00ff00ff:
  "unat ((x::u32) AND 0x00ff00ff) = unat x mod 256 + 65536 * (unat x div 65536 mod 256)"
  apply (simp only: and_00ff00ff)
  apply (subst unat_add_lem[THEN iffD1])
   apply (simp only: word_to_nat)
   apply (simp add: bit_arith)
  apply (simp only: word_to_nat)
  apply (simp add: bit_arith)
  done

lemma unat_mul255:
  assumes "unat (x::u32) < 16777216"
  shows "unat (x * 255) = unat x * 255"
proof -
  have "unat x * unat (255::u32) < 2 ^ LENGTH(32)" using assms by simp
  then have "unat (x * 255) = unat x * unat (255::u32)" by (simp only: unat_mult_lem)
  then show ?thesis by simp
qed

lemma red_blue_split:
  fixes y r :: nat
  assumes "y < 256"
  shows "(y + 65280 * r) mod 256 = y" and "(y + 65280 * r) div 65536 = r * 255 div 256"
proof -
  have e: "y + 65280 * r = y + 256 * (255 * r)" by simp
  have "(y + 256 * (255 * r)) mod 256 = y mod 256" by (rule mod_mult_self2)
  then show "(y + 65280 * r) mod 256 = y" using assms by (simp only: e mod_less)
  have "(y + 256 * (255 * r)) div (256 * 256) = (y + 256 * (255 * r)) div 256 div 256"
    by (rule div_mult2_eq)
  moreover have "(y + 256 * (255 * r)) div 256 = 255 * r + y div 256"
    by (rule div_mult_self2) simp
  moreover have "y div 256 = 0" using assms by simp
  moreover have "(256::nat) * 256 = 65536" by simp
  ultimately show "(y + 65280 * r) div 65536 = r * 255 div 256"
    by (simp only: e add_0_right mult.commute)
qed

lemma alpha_byte_ucast: "(ucast (ucast (drop_bit 24 (p::u32)) :: u8) :: u32) = drop_bit 24 p"
  by (rule bit_word_eqI) (auto simp add: bit_simps dest: bit_imp_le_length)

lemma u16_le_ff_bit:
  assumes "(r::u16) \<le> 0xff" "8 \<le> n"
  shows "\<not> bit r n"
proof -
  have "r < 2 ^ 8" using assms(1) by (simp add: word_le_nat_alt word_less_nat_alt)
  then have "take_bit 8 r = r" by (simp add: take_bit_eq_mask less_mask_eq)
  then have "bit r n = bit (take_bit 8 r) n" by simp
  then show ?thesis using assms(2) by (simp add: bit_take_bit_iff)
qed

lemma pack_alpha:
  assumes "(r::u16) \<le> 0xff" "(g::u16) \<le> 0xff" "(b::u16) \<le> 0xff"
  shows "drop_bit 24 (push_bit 24 (ucast (a::u8)) OR push_bit 16 (ucast r)
           OR push_bit 8 (ucast g) OR (ucast b :: u32)) = ucast a"
  by (rule bit_word_eqI)
     (auto simp add: bit_simps u16_le_ff_bit[OF assms(1)] u16_le_ff_bit[OF assms(2)]
        u16_le_ff_bit[OF assms(3)] dest: bit_imp_le_length)

lemma clamp_le: "(if (r::u16) > 0xff then 0xff else r) \<le> 0xff"
  by (simp add: not_less)

subsection \<open>Unpremultiplication keeps the alpha byte\<close>

lemma unpremultiply_px_alpha: "drop_bit 24 (unpremultiply_px p) = drop_bit 24 p"
proof -
  let ?a = "ucast (drop_bit 24 p) :: u8"
  consider "?a = 255" | "?a \<noteq> 255" "?a = 0" | "?a \<noteq> 255" "?a \<noteq> 0" by blast
  then show ?thesis
  proof cases
    case 1 then show ?thesis by (simp add: unpremultiply_px_def)
  next
    case 2
    have "drop_bit 24 p = ucast ?a" by (simp add: alpha_byte_ucast)
    also have "\<dots> = 0" using 2 by simp
    finally show ?thesis using 2 by (simp add: unpremultiply_px_def)
  next
    case 3
    have "unpremultiply_px p =
      (let r = (ucast ((drop_bit 8 p AND 0xff00) div ucast ?a) :: u16);
           g = (ucast ((p AND 0xff00) div ucast ?a) :: u16);
           b = (ucast ((push_bit 8 p AND 0xff00) div ucast ?a) :: u16);
           r' = (if r > 0xff then 0xff else r);
           g' = (if g > 0xff then 0xff else g);
           b' = (if b > 0xff then 0xff else b)
       in push_bit 24 (ucast ?a) OR push_bit 16 (ucast r') OR push_bit 8 (ucast g') OR ucast b')"
      unfolding unpremultiply_px_def Let_def using 3 by (simp only: if_False)
    then have "drop_bit 24 (unpremultiply_px p) = ucast ?a"
      unfolding Let_def by (simp only: pack_alpha[OF clamp_le clamp_le clamp_le])
    then show ?thesis by (simp add: alpha_byte_ucast)
  qed
qed

text \<open>
  C10. \<^verbatim>\<open>rasterUnpremultiply\<close> leaves the alpha byte (bits 24 to 31) of every pixel
  word of the buffer as it was, whatever the surface: only the colour bytes are rewritten.
\<close>

theorem rasterUnpremultiply_alpha_plane:
  "drop_bit 24 (buf32 (rasterUnpremultiply surface) i) = drop_bit 24 (buf32 surface i)"
proof (cases "channelSize surface = 4")
  case False then show ?thesis by (simp add: rasterUnpremultiply_def)
next
  case True
  let ?P = "\<lambda>buf. \<forall>j. drop_bit 24 (buf j) = drop_bit 24 (buf32 surface j)"
  let ?row = "\<lambda>y. for_loop (unat (sw surface)) (\<lambda>x buf.
                   let i = unat (stride surface * of_nat y) + x
                   in buf(i := unpremultiply_px (buf i)))"
  have row: "?P (?row y buf)" if "?P buf" for y buf
    by (rule for_loop_invariant[where P = ?P]) (simp_all add: Let_def unpremultiply_px_alpha that)
  have "?P (for_loop (unat (sh surface)) ?row (buf32 surface))"
    by (rule for_loop_invariant[where P = ?P]) (simp_all add: row)
  then show ?thesis using True by (simp add: rasterUnpremultiply_def)
qed

subsection \<open>Premultiplying an opaque pixel\<close>

lemma for_loop_numeral:
  "for_loop (numeral k) body s = body (pred_numeral k) (for_loop (pred_numeral k) body s)"
  by (simp add: numeral_eq_Suc)

lemma premultiply_px_opaque_unat:
  assumes a: "drop_bit 24 c = (255::u32)"
  shows "unat (premultiply_px c) = opaque_round_trip (unat c)"
proof -
  let ?R = "unat c div 65536 mod 256" and ?G = "unat c div 256 mod 256" and ?B = "unat c mod 256"
  have A: "unat c div 16777216 = 255" using a unat_drop24[of c] by simp
  let ?T1 = "c AND 0xff000000"
  let ?T2 = "((drop_bit 8 c AND 0xff) * 255) AND 0xff00"
  let ?T3 = "drop_bit 8 ((c AND 0x00ff00ff) * 255) AND 0x00ff00ff"
  have t1: "unat ?T1 = 255 * 16777216" by (simp add: unat_and_ff000000 A)
  have g: "unat (drop_bit 8 c AND 0xff) = ?G" by (simp add: unat_and_ff unat_drop8)
  have "unat ((drop_bit 8 c AND 0xff) * 255) = ?G * 255"
    by (subst unat_mul255) (simp_all add: g)
  then have t2: "unat ?T2 = 256 * (?G * 255 div 256)"
    by (simp add: unat_and_ff00)
  have rb: "unat (c AND 0x00ff00ff) = ?B + 65536 * ?R" by (simp add: unat_and_00ff00ff)
  have "unat ((c AND 0x00ff00ff) * 255) = (?B + 65536 * ?R) * 255"
    by (subst unat_mul255) (simp_all add: rb)
  then have d: "unat (drop_bit 8 ((c AND 0x00ff00ff) * 255)) = ?B * 255 div 256 + 65280 * ?R"
    by (simp add: unat_drop8) arith
  have t3: "unat ?T3 = ?B * 255 div 256 + 65536 * (?R * 255 div 256)"
  proof -
    have "?B < 256" by simp
    then have "?B * 255 div 256 < 256" by simp
    then show ?thesis unfolding unat_and_00ff00ff d by (simp add: red_blue_split)
  qed
  have s12: "unat (?T1 + ?T2) = unat ?T1 + unat ?T2"
    by (subst unat_add_lem[THEN iffD1]) (simp_all add: t1 t2)
  have "unat (?T1 + ?T2 + ?T3) = unat ?T1 + unat ?T2 + unat ?T3"
    by (subst unat_add_lem[THEN iffD1]) (simp_all add: s12 t1 t2 t3)
  then show ?thesis
    unfolding premultiply_px_def Let_def a opaque_round_trip_def by (simp add: t1 t2 t3)
qed

lemma opaque_round_trip_alpha: "opaque_round_trip p div 16777216 = 255"
proof -
  define r where "r = p div 65536 mod 256 * 255 div 256"
  define g where "g = p div 256 mod 256 * 255 div 256"
  define b where "b = p mod 256 * 255 div 256"
  have "r < 256" "g < 256" "b < 256" by (simp_all add: r_def g_def b_def)
  then have "r * 65536 + g * 256 + b < 16777216" by simp
  moreover have "opaque_round_trip p = 4278190080 + (r * 65536 + g * 256 + b)"
    by (simp add: opaque_round_trip_def r_def g_def b_def)
  ultimately show ?thesis by simp
qed

lemma premultiply_px_opaque_alpha:
  assumes "drop_bit 24 c = (255::u32)"
  shows "drop_bit 24 (premultiply_px c) = 255"
proof -
  have "unat (drop_bit 24 (premultiply_px c)) = unat (255::u32)"
    by (simp add: unat_drop24 premultiply_px_opaque_unat[OF assms] opaque_round_trip_alpha)
  then show ?thesis by (simp only: word_unat_eq_iff)
qed

lemma unpremultiply_px_opaque:
  assumes "drop_bit 24 q = (255::u32)"
  shows "unpremultiply_px q = q"
  using assms by (simp add: unpremultiply_px_def)

lemma unpremultiply_px_transparent:
  assumes "drop_bit 24 p = (0::u32)"
  shows "unpremultiply_px p = 0x00ffffff"
  using assms by (simp add: unpremultiply_px_def)

lemma rasterPremultiply_pixel:
  assumes "channelSize s = 4" "unat (sw s) \<le> unat (stride s)" "y < unat (sh s)" "x < unat (sw s)"
  shows "buf32 (rasterPremultiply s) (y * unat (stride s) + x) =
           premultiply_px (buf32 s (y * unat (stride s) + x))"
  using assms in_rect[of y "unat (sh s)" x "unat (sw s)" "unat (stride s)"]
  by (simp add: rasterPremultiply_def Let_def for_loop_rect_update)

lemma rasterUnpremultiply_pixel:
  assumes "channelSize s = 4" "unat (sw s) \<le> unat (stride s)"
    "unat (stride s) * unat (sh s) < 2 ^ 32" "y < unat (sh s)" "x < unat (sw s)"
  shows "buf32 (rasterUnpremultiply s) (y * unat (stride s) + x) =
           unpremultiply_px (buf32 s (y * unat (stride s) + x))"
proof -
  let ?f = "\<lambda>y. for_loop (unat (sw s)) (\<lambda>x buf.
              let i = unat (stride s * of_nat y) + x in buf(i := unpremultiply_px (buf i)))"
  let ?g = "\<lambda>y. for_loop (unat (sw s)) (\<lambda>x buf.
              buf(y * unat (stride s) + x := unpremultiply_px (buf (y * unat (stride s) + x))))"
  have "for_loop (unat (sh s)) ?f (buf32 s) = for_loop (unat (sh s)) ?g (buf32 s)"
    by (rule for_loop_cong) (simp add: Let_def unat_row_offset[OF assms(3)])
  then show ?thesis
    using assms in_rect[of y "unat (sh s)" x "unat (sw s)" "unat (stride s)"]
    by (simp add: rasterUnpremultiply_def for_loop_rect_update)
qed

lemma rasterPremultiply_frame:
  "channelSize (rasterPremultiply s) = channelSize s" "sw (rasterPremultiply s) = sw s"
  "sh (rasterPremultiply s) = sh s" "stride (rasterPremultiply s) = stride s"
  by (simp_all add: rasterPremultiply_def)

text \<open>
  C2, as amended. On a colour surface whose rows do not overlap and whose buffer has fewer
  than \<open>2 ^ 32\<close> elements, take the pixel at column \<open>x\<close> of row \<open>y\<close>. If its
  alpha byte is 255, \<^verbatim>\<open>rasterPremultiply\<close> followed by \<^verbatim>\<open>rasterUnpremultiply\<close>
  keeps the alpha byte and replaces every colour byte \<open>v\<close> by \<open>v * 255 div 256\<close> (the
  pixel comes back unchanged only when its colour bytes are 0). If its alpha byte is 0,
  \<^verbatim>\<open>rasterUnpremultiply\<close> maps it to \<^verbatim>\<open>0x00FFFFFF\<close>.
\<close>

theorem premultiply_round_trip:
  assumes "channelSize s = 4" "unat (sw s) \<le> unat (stride s)"
    "unat (stride s) * unat (sh s) < 2 ^ 32" "y < unat (sh s)" "x < unat (sw s)"
  shows "(drop_bit 24 (buf32 s (y * unat (stride s) + x)) = 255 \<longrightarrow>
            unat (buf32 (rasterUnpremultiply (rasterPremultiply s)) (y * unat (stride s) + x)) =
              opaque_round_trip (unat (buf32 s (y * unat (stride s) + x))))
       \<and> (drop_bit 24 (buf32 s (y * unat (stride s) + x)) = 0 \<longrightarrow>
            buf32 (rasterUnpremultiply s) (y * unat (stride s) + x) = 0x00ffffff)"
proof (intro conjI impI)
  let ?i = "y * unat (stride s) + x"
  assume op: "drop_bit 24 (buf32 s ?i) = 255"
  have pre: "buf32 (rasterPremultiply s) ?i = premultiply_px (buf32 s ?i)"
    using assms by (intro rasterPremultiply_pixel) simp_all
  have "buf32 (rasterUnpremultiply (rasterPremultiply s)) ?i =
          unpremultiply_px (buf32 (rasterPremultiply s) ?i)"
    using rasterUnpremultiply_pixel[of "rasterPremultiply s" y x] assms
    by (simp add: rasterPremultiply_frame)
  also have "\<dots> = premultiply_px (buf32 s ?i)"
    by (simp only: pre unpremultiply_px_opaque[OF premultiply_px_opaque_alpha[OF op]])
  finally show "unat (buf32 (rasterUnpremultiply (rasterPremultiply s)) ?i) =
      opaque_round_trip (unat (buf32 s ?i))"
    by (simp only: premultiply_px_opaque_unat[OF op])
next
  let ?i = "y * unat (stride s) + x"
  assume "drop_bit 24 (buf32 s ?i) = 0"
  then show "buf32 (rasterUnpremultiply s) ?i = 0x00ffffff"
    using assms by (simp add: rasterUnpremultiply_pixel unpremultiply_px_transparent)
qed

lemma premultiply_px_white: "premultiply_px 0xFFFFFFFF = 0xFFFEFEFE"
  by (simp add: premultiply_px_def Let_def)

lemma unpremultiply_px_white: "unpremultiply_px 0xFFFEFEFE = 0xFFFEFEFE"
  by (simp add: unpremultiply_px_def Let_def)

theorem premultiply_round_trip_witness:
  "drop_bit 24 (buf32 px_surface 0) = 255 \<and>
   unat (buf32 (rasterUnpremultiply (rasterPremultiply px_surface)) 0) = 4294901502 \<and>
   drop_bit 24 (buf32 px_surface 1) = 0 \<and>
   buf32 (rasterUnpremultiply px_surface) 1 = 0x00ffffff"
  using premultiply_round_trip[of px_surface 0 0] premultiply_round_trip[of px_surface 0 1]
  by (simp add: px_surface_def opaque_round_trip_def)

text \<open>The round trip as the claim states it fails on opaque white: \<^verbatim>\<open>0xFFFFFFFF\<close>
  comes back as \<^verbatim>\<open>0xFFFEFEFE\<close>.\<close>

theorem premultiply_round_trip_counterexample:
  "drop_bit 24 (buf32 px_surface 0) = 255 \<and>
   buf32 (rasterUnpremultiply (rasterPremultiply px_surface)) 0 \<noteq> buf32 px_surface 0"
  by (simp add: px_surface_def rasterUnpremultiply_def rasterPremultiply_def
      premultiply_px_white unpremultiply_px_white for_loop_numeral)

subsection \<open>Blender configuration on an unsupported colour space\<close>

text \<open>
  C8, as amended. On a surface whose colour space is none of the four supported ones,
  \<^verbatim>\<open>rasterCompositor\<close> returns false and leaves the join function and the two luma
  extractors (entries 2 and 3) as they were; the alpha and inverse-alpha extractors
  (entries 0 and 1) are installed all the same. Nothing else of the surface changes.
\<close>

theorem rasterCompositor_unsupported:
  assumes "cs surface \<notin> {ABGR8888, ABGR8888S, ARGB8888, ARGB8888S}"
  shows "rasterCompositor surface =
           (False, surface\<lparr>blender := (blender surface)\<lparr>alphas :=
              (alphas (blender surface))(0 := Some ALPHA, 1 := Some IALPHA)\<rparr>\<rparr>)"
  using assms by (simp add: rasterCompositor_def Let_def)

theorem rasterCompositor_unsupported_witness:
  "rasterCompositor gray_surface =
     (False, gray_surface\<lparr>blender := \<lparr>join = None,
        alphas = (\<lambda>_. None)(0 := Some ALPHA, 1 := Some IALPHA)\<rparr>\<rparr>)"
  using rasterCompositor_unsupported[of gray_surface]
  by (simp add: gray_surface_def no_blender_def)

text \<open>Not every field is left unmodified: entries 0 and 1 of the alpha table were unset
  before the call and are set after it.\<close>

theorem rasterCompositor_unsupported_counterexample:
  "cs gray_surface \<notin> {ABGR8888, ABGR8888S, ARGB8888, ARGB8888S} \<and>
   fst (rasterCompositor gray_surface) = False \<and>
   alphas (blender gray_surface) 0 = None \<and>
   alphas (blender (snd (rasterCompositor gray_surface))) 0 = Some ALPHA \<and>
   alphas (blender gray_surface) 1 = None \<and>
   alphas (blender (snd (rasterCompositor gray_surface))) 1 = Some IALPHA"
  by (simp add: rasterCompositor_def gray_surface_def no_blender_def Let_def)


subsection \<open>Evaluating loops on numerals\<close>

lemma for_loop_opt_numeral:
  "for_loop_opt (numeral k) body s =
     Option.bind (for_loop_opt (pred_numeral k) body s) (body (pred_numeral k))"
  by (simp add: numeral_eq_Suc)

lemmas eval_loops = for_loop_numeral for_loop_opt_numeral intersect_y.simps intersect_x.simps
  intersect_region_rows_def rounds_u32_def rasterRGBA32_def store_def load_def Let_def

subsection \<open>Rectangles and spans of a buffer\<close>

lemma rect_update_nat:
  assumes "0 \<le> base" "0 \<le> st"
  shows "rect_update f base st rows cols buf =
     for_loop rows (\<lambda>y. for_loop cols (\<lambda>x b.
        b(nat base + y * nat st + x := f (b (nat base + y * nat st + x))))) buf"
proof -
  have "nat (base + int y * st + int x) = nat base + y * nat st + x" for x y
    using assms by (simp add: nat_add_distrib nat_mult_distrib)
  then show ?thesis by (simp add: rect_update_def store_def load_def Let_def)
qed

lemma rect_update_pixel:
  assumes "0 \<le> base" "0 \<le> st" "int cols \<le> st" "y < rows" "x < cols"
  shows "rect_update f base st rows cols buf (nat (base + int y * st + int x)) =
           f (buf (nat (base + int y * st + int x)))"
proof -
  have e: "nat (base + int y * st + int x) = nat base + y * nat st + x"
    using assms by (simp add: nat_add_distrib nat_mult_distrib)
  have c: "cols \<le> nat st" using assms by simp
  have "\<exists>y'<rows. nat base + y' * nat st \<le> nat base + y * nat st + x
           \<and> nat base + y * nat st + x < nat base + y' * nat st + cols"
    using assms(4,5) by (intro exI[of _ y]) simp
  then show ?thesis
    unfolding e rect_update_nat[OF assms(1,2)] for_loop_rect_update_base[OF c] by simp
qed

lemma unat_of_int_u32:
  assumes "0 \<le> k" "k < 2 ^ 32"
  shows "unat (of_int k :: u32) = nat k"
proof -
  have "(of_int k :: u32) = of_nat (nat k)" using assms(1) by simp
  moreover have "nat k < 2 ^ 32" using assms by (simp add: nat_less_iff)
  ultimately show ?thesis by (simp add: unat_of_nat)
qed

lemma span_update_pixel:
  "span_update P f color cstride spn buf i =
     (if i \<in> span_range cstride spn then f (span_src P color spn) (buf i) else buf i)"
proof -
  have nn: "0 \<le> span_index cstride spn" by (simp add: span_index_def)
  have "nat (span_index cstride spn + int x) = nat (span_index cstride spn) + x" for x
    using nn by (simp add: nat_add_distrib)
  then show ?thesis
    by (simp add: span_update_def store_def load_def Let_def for_loop_row_update span_range_def)
qed

lemma spans_loop_step:
  "for_loop (Suc n) (\<lambda>k. span_update P f color cstride (S k)) buf i =
     (if i \<in> span_range cstride (S n)
      then f (span_src P color (S n))
             (for_loop n (\<lambda>k. span_update P f color cstride (S k)) buf i)
      else for_loop n (\<lambda>k. span_update P f color cstride (S k)) buf i)"
  by (simp only: for_loop.simps span_update_pixel)

lemma spans_loop_outside:
  assumes "\<And>k. k < n \<Longrightarrow> i \<notin> span_range cstride (S k)"
  shows "for_loop n (\<lambda>k. span_update P f color cstride (S k)) buf i = buf i"
  using assms
proof (induction n)
  case 0 show ?case by simp
next
  case (Suc n)
  have "for_loop n (\<lambda>k. span_update P f color cstride (S k)) buf i = buf i"
    using Suc.prems by (intro Suc.IH) simp
  moreover have "i \<notin> span_range cstride (S n)" using Suc.prems by simp
  ultimately show ?case by (simp only: spans_loop_step if_False)
qed

lemma spans_loop_pixel:
  assumes "\<And>k k'. k < n \<Longrightarrow> k' < n \<Longrightarrow> k \<noteq> k' \<Longrightarrow>
             span_range cstride (S k) \<inter> span_range cstride (S k') = {}"
    and "k < n" and "i \<in> span_range cstride (S k)"
  shows "for_loop n (\<lambda>k. span_update P f color cstride (S k)) buf i =
           f (span_src P color (S k)) (buf i)"
  using assms
proof (induction n)
  case 0 then show ?case by simp
next
  case (Suc n)
  show ?case
  proof (cases "k = n")
    case True
    have "i \<notin> span_range cstride (S k')" if "k' < n" for k'
      using Suc.prems(1)[of n k'] Suc.prems(3) True that by auto
    then have "for_loop n (\<lambda>k. span_update P f color cstride (S k)) buf i = buf i"
      by (rule spans_loop_outside)
    moreover have "i \<in> span_range cstride (S n)" using True Suc.prems(3) by simp
    ultimately show ?thesis unfolding True by (simp only: spans_loop_step if_True)
  next
    case False
    then have kn: "k < n" using Suc.prems(2) by simp
    have out: "i \<notin> span_range cstride (S n)"
      using Suc.prems(1)[of k n] Suc.prems(3) kn by auto
    have "for_loop n (\<lambda>k. span_update P f color cstride (S k)) buf i =
            f (span_src P color (S k)) (buf i)"
      using Suc.prems(1,3) kn by (intro Suc.IH) simp_all
    then show ?thesis using out by (simp only: spans_loop_step if_False)
  qed
qed

lemma rasterRGBA32_pixel:
  "rasterRGBA32 buf (int off) v 0 len i =
     (if off \<le> i \<and> i < off + nat (sint len) then v else buf i)"
proof -
  have "nat (int off + int k) = off + k" for k by (simp add: nat_add_distrib)
  then have "rasterRGBA32 buf (int off) v 0 len =
      for_loop (nat (sint len)) (\<lambda>k b. b(off + k := v)) buf"
    by (simp add: rasterRGBA32_def store_def)
  then show ?thesis by (simp only: for_loop_row_fill)
qed

subsection \<open>The alpha byte of a joined colour\<close>

lemma join_alpha: "ALPHA_of (apply_join j r g b a) = ucast a"
proof -
  have "drop_bit 24 (push_bit 24 (ucast a) OR push_bit 16 (ucast x) OR push_bit 8 (ucast y)
          OR (ucast z :: u32)) = ucast a"
    for x y z :: u8
    by (rule bit_word_eqI) (auto simp add: bit_simps dest: bit_imp_le_length)
  then show ?thesis by (cases j) (simp_all add: ALPHA_of_def)
qed

lemma join_ialpha: "IALPHA_of (apply_join j r g b a) = 255 - ucast a"
  using join_alpha[of j r g b a] by (simp add: IALPHA_of_def ALPHA_of_def)

subsection \<open>Solid colour under AddMask\<close>

lemma rasterMaskedRect_AddMask:
  assumes "channelSize surface = 4" "compositor surface = Some cmp" "cmethod cmp = AddMask"
    "join (blender surface) = Some j"
    "0 \<le> min_x region" "0 \<le> min_y region"
    "max_x region - min_x region \<le> uint (istride (image cmp))"
    "max_y region - min_y region < 2 ^ 32"
    "min_x region \<le> x" "x < max_x region" "min_y region \<le> y" "y < max_y region"
  shows "cmp_pixel (rasterMaskedRect P surface region r g b a)
           (nat (y * uint (istride (image cmp)) + x)) =
         Some (apply_join j r g b a
               + ALPHA_BLEND P (ibuf32 (image cmp) (nat (y * uint (istride (image cmp)) + x)))
                   (IALPHA_of (apply_join j r g b a)))"
proof -
  let ?st = "uint (istride (image cmp))"
  let ?w = "of_int (max_x region - min_x region) :: u32"
  let ?h = "of_int (max_y region - min_y region) :: u32"
  let ?base = "min_y region * ?st + min_x region"
  let ?f = "\<lambda>c. apply_join j r g b a + ALPHA_BLEND P c (255 - ucast a)"
  have st32: "?st < 2 ^ 32" using uint_lt2p[of "istride (image cmp)"] by simp
  have w: "unat ?w = nat (max_x region - min_x region)"
    using assms(7,9,10) st32 by (intro unat_of_int_u32) linarith+
  have h: "unat ?h = nat (max_y region - min_y region)"
    using assms(8,11,12) by (intro unat_of_int_u32) linarith+
  define y' where "y' = nat (y - min_y region)"
  define x' where "x' = nat (x - min_x region)"
  have iy: "int y' = y - min_y region" and ix: "int x' = x - min_x region"
    using assms(9,11) by (simp_all add: y'_def x'_def)
  have idx: "y * ?st + x = ?base + int y' * ?st + int x'"
    unfolding iy ix by (simp add: algebra_simps)
  have b0: "0 \<le> ?base" using assms(5,6) by simp
  have c0: "int (unat ?w) \<le> ?st" unfolding w using assms(7,9,10) by simp
  have r0: "y' < unat ?h" unfolding h y'_def using assms(11,12) by simp
  have r1: "x' < unat ?w" unfolding w x'_def using assms(9,10) by simp
  have px: "rect_update ?f ?base ?st (unat ?h) (unat ?w) (ibuf32 (image cmp))
              (nat (?base + int y' * ?st + int x')) =
            ?f (ibuf32 (image cmp) (nat (?base + int y' * ?st + int x')))"
    by (rule rect_update_pixel[OF b0 _ c0 r0 r1]) simp
  have res: "cmp_pixel (rasterMaskedRect P surface region r g b a) i =
     Some (rect_update ?f ?base ?st (unat ?h) (unat ?w) (ibuf32 (image cmp)) i)" for i
    using assms(1-4)
    by (simp add: cmp_pixel_def rasterMaskedRect_def Let_def rasterDirectRGBAImage_def)
  show ?thesis
    unfolding res idx px join_ialpha ..
qed

lemma rasterMaskedRle_AddMask:
  assumes "channelSize surface = 4" "compositor surface = Some cmp" "cmethod cmp = AddMask"
    "join (blender surface) = Some j"
    "\<And>k k'. k < unat (rsize rle) \<Longrightarrow> k' < unat (rsize rle) \<Longrightarrow> k \<noteq> k' \<Longrightarrow>
       span_range (istride (image cmp)) (spans rle k)
         \<inter> span_range (istride (image cmp)) (spans rle k') = {}"
    "k < unat (rsize rle)" "i \<in> span_range (istride (image cmp)) (spans rle k)"
  shows "cmp_pixel (rasterMaskedRle P surface rle r g b a) i =
           Some (span_src P (apply_join j r g b a) (spans rle k)
                 + ALPHA_BLEND P (ibuf32 (image cmp) i)
                     (IALPHA_of (span_src P (apply_join j r g b a) (spans rle k))))"
proof -
  let ?f = "\<lambda>src c. src + ALPHA_BLEND P c (IALPHA_of src)"
  have res: "cmp_pixel (rasterMaskedRle P surface rle r g b a) i =
     Some (for_loop (unat (rsize rle)) (\<lambda>k. span_update P ?f (apply_join j r g b a)
              (istride (image cmp)) (spans rle k)) (ibuf32 (image cmp)) i)"
    using assms(1-4)
    by (simp add: cmp_pixel_def rasterMaskedRle_def Let_def rasterDirectRGBAImage_def)
  show ?thesis
    unfolding res
    by (subst spans_loop_pixel[where f = ?f and S = "spans rle" and k = k
          and cstride = "istride (image cmp)"])
       (use assms(5,6,7) in simp_all)
qed

text \<open>
  C6. Under \<^verbatim>\<open>AddMask\<close> every compositor pixel of the iteration domain becomes
  \<open>src + blend(cmp, 255 - alpha(src))\<close>. For a rectangle (\<^verbatim>\<open>_rasterMaskedRect\<close>) the
  domain is the region and \<open>src\<close> is the joined colour (coverage 255); the region lies
  in the non-negative quadrant and is at most one compositor row wide. For RLE spans
  (\<^verbatim>\<open>_rasterMaskedRle\<close>) the domain is the pixels of the spans, which do not overlap, and
  \<open>src\<close> is the colour scaled by the span's coverage.
\<close>

theorem AddMask_compositor_update:
  "(channelSize surface = 4 \<and> compositor surface = Some cmp \<and> cmethod cmp = AddMask
      \<and> join (blender surface) = Some j
      \<and> 0 \<le> min_x region \<and> 0 \<le> min_y region
      \<and> max_x region - min_x region \<le> uint (istride (image cmp))
      \<and> max_y region - min_y region < 2 ^ 32
      \<and> min_x region \<le> x \<and> x < max_x region \<and> min_y region \<le> y \<and> y < max_y region
    \<longrightarrow> cmp_pixel (rasterMaskedRect P surface region r g b a)
           (nat (y * uint (istride (image cmp)) + x)) =
         Some (apply_join j r g b a
               + ALPHA_BLEND P (ibuf32 (image cmp) (nat (y * uint (istride (image cmp)) + x)))
                   (IALPHA_of (apply_join j r g b a))))
   \<and> (channelSize surface = 4 \<and> compositor surface = Some cmp \<and> cmethod cmp = AddMask
      \<and> join (blender surface) = Some j
      \<and> (\<forall>k k'. k < unat (rsize rle) \<and> k' < unat (rsize rle) \<and> k \<noteq> k' \<longrightarrow>
            span_range (istride (image cmp)) (spans rle k)
              \<inter> span_range (istride (image cmp)) (spans rle k') = {})
      \<and> k < unat (rsize rle) \<and> i \<in> span_range (istride (image cmp)) (spans rle k)
    \<longrightarrow> cmp_pixel (rasterMaskedRle P surface rle r g b a) i =
           Some (span_src P (apply_join j r g b a) (spans rle k)
                 + ALPHA_BLEND P (ibuf32 (image cmp) i)
                     (IALPHA_of (span_src P (apply_join j r g b a) (spans rle k)))))"
proof (intro conjI impI)
  assume "channelSize surface = 4 \<and> compositor surface = Some cmp \<and> cmethod cmp = AddMask
      \<and> join (blender surface) = Some j
      \<and> 0 \<le> min_x region \<and> 0 \<le> min_y region
      \<and> max_x region - min_x region \<le> uint (istride (image cmp))
      \<and> max_y region - min_y region < 2 ^ 32
      \<and> min_x region \<le> x \<and> x < max_x region \<and> min_y region \<le> y \<and> y < max_y region"
  then show "cmp_pixel (rasterMaskedRect P surface region r g b a)
           (nat (y * uint (istride (image cmp)) + x)) =
         Some (apply_join j r g b a
               + ALPHA_BLEND P (ibuf32 (image cmp) (nat (y * uint (istride (image cmp)) + x)))
                   (IALPHA_of (apply_join j r g b a)))"
    by (intro rasterMaskedRect_AddMask) simp_all
next
  assume h: "channelSize surface = 4 \<and> compositor surface = Some cmp \<and> cmethod cmp = AddMask
      \<and> join (blender surface) = Some j
      \<and> (\<forall>k k'. k < unat (rsize rle) \<and> k' < unat (rsize rle) \<and> k \<noteq> k' \<longrightarrow>
            span_range (istride (image cmp)) (spans rle k)
              \<inter> span_range (istride (image cmp)) (spans rle k') = {})
      \<and> k < unat (rsize rle) \<and> i \<in> span_range (istride (image cmp)) (spans rle k)"
  show "cmp_pixel (rasterMaskedRle P surface rle r g b a) i =
           Some (span_src P (apply_join j r g b a) (spans rle k)
                 + ALPHA_BLEND P (ibuf32 (image cmp) i)
                     (IALPHA_of (span_src P (apply_join j r g b a) (spans rle k))))"
    by (rule rasterMaskedRle_AddMask[where k = k]) (use h in simp_all)
qed

lemma ref_blend_255: "ALPHA_BLEND ref_ops 0xFFFFFFFF 128 = 0x80808080"
  by (simp add: ref_ops_def)

theorem AddMask_compositor_update_witness:
  "cmp_pixel (rasterMaskedRect ref_ops (masked_surface AddMask) mid_region 255 255 255 255) 4 =
     Some (0xFFFFFFFF + ALPHA_BLEND ref_ops 0xDEADBEEF 0)
   \<and> cmp_pixel (rasterMaskedRle ref_ops (masked_surface AddMask) two_spans 255 255 255 255) 3 =
     Some (0x80808080 + ALPHA_BLEND ref_ops 0xDEADBEEF 127)"
proof -
  have d: "\<forall>k k'. k < unat (rsize two_spans) \<and> k' < unat (rsize two_spans) \<and> k \<noteq> k' \<longrightarrow>
     span_range (istride (image (demo_compositor AddMask))) (spans two_spans k)
       \<inter> span_range (istride (image (demo_compositor AddMask))) (spans two_spans k') = {}"
    by (auto simp add: two_spans_def demo_compositor_def cmp_image_def span_range_def
        span_index_def)
  have m: "3 \<in> span_range (istride (image (demo_compositor AddMask))) (spans two_spans 1)"
    by (simp add: two_spans_def demo_compositor_def cmp_image_def span_range_def span_index_def)
  show ?thesis
    using AddMask_compositor_update[where surface = "masked_surface AddMask"
        and cmp = "demo_compositor AddMask" and j = abgrJoin and region = mid_region
        and x = 1 and y = 1 and P = ref_ops and r = 255 and g = 255 and b = 255 and a = 255
        and rle = two_spans and k = 1 and i = 3] d m
    by (simp add: masked_surface_def plain_surface_def demo_compositor_def cmp_image_def
        mid_region_def two_spans_def span_src_def IALPHA_of_def ref_blend_255)
qed


subsection \<open>IntersectMask on a rectangle\<close>

text \<open>
  C1. A one-pixel region in the middle of a 3 x 3 compositor bbox, filled under
  \<^verbatim>\<open>IntersectMask\<close>: the call returns true, and the pixel at column 1 of row 0, inside the
  bbox and outside the region, still holds \<^verbatim>\<open>0xDEADBEEF\<close>. A row above or below the region
  is zeroed over the width of the region only.
\<close>

theorem rasterMaskedRect_IntersectMask_leaves_pixels:
  "returned (rasterMaskedRect P (masked_surface IntersectMask) mid_region r g b a) = Some True \<and>
   cmp_pixel (rasterMaskedRect P (masked_surface IntersectMask) mid_region r g b a) 0 = Some 0 \<and>
   cmp_pixel (rasterMaskedRect P (masked_surface IntersectMask) mid_region r g b a) 1
     = Some 0xDEADBEEF"
  by (simp add: returned_def cmp_pixel_def rasterMaskedRect_def masked_surface_def
      plain_surface_def demo_compositor_def cmp_image_def mid_region_def
      rasterDirectRGBAImage_def eval_loops)

subsection \<open>Return values of the gradient rasterizers\<close>

lemma rasterRadialGradientRect_solid:
  assumes "\<not> compositing surface" "\<not> translucent fill" "\<not> radial_a fill < FLT_EPSILON"
  shows "returned (rasterRadialGradientRect P W surface region fill) = Some True"
  using assms
  by (simp add: returned_def rasterRadialGradientRect_def rasterSolidRadialGradientRect_def)

text \<open>
  C3. A proper (\<open>len \<ge> \<epsilon>\<close>), opaque linear gradient on a surface without compositor:
  the solid rasterizer renders and returns true, and \<^verbatim>\<open>_rasterLinearGradientRect\<close>
  returns false.
\<close>

theorem rasterLinearGradientRect_solid_returns_false:
  "\<not> linear_len solid_linear < FLT_EPSILON \<and> \<not> compositing plain_surface \<and>
   \<not> translucent solid_linear \<and>
   fst (rasterSolidLinearGradientRect W plain_surface mid_region solid_linear) = True \<and>
   returned (rasterLinearGradientRect P W plain_surface mid_region solid_linear) = Some False"
  by (simp add: returned_def rasterLinearGradientRect_def rasterSolidLinearGradientRect_def
      compositing_def plain_surface_def solid_linear_def FLT_EPSILON_def)

text \<open>Off the masked paths the radial rasterizers test \<open>a\<close>: a gradient with
  \<open>a < \<epsilon>\<close> is rejected and the surface is returned as it was.\<close>

lemma rasterRadialGradient_rejects_small_a:
  assumes "radial_a fill < FLT_EPSILON"
  shows "rasterRadialGradientMattedRect W surface region fill = Done (False, surface)"
    and "rasterTranslucentRadialGradientRect W surface region fill = (False, surface)"
    and "rasterSolidRadialGradientRect W surface region fill = (False, surface)"
    and "rasterRadialGradientMattedRle W surface rle fill = Done (False, surface)"
    and "rasterTranslucentRadialGradientRle W surface rle fill = (False, surface)"
    and "rasterSolidRadialGradientRle W surface rle fill = (False, surface)"
  using assms
  by (simp_all add: rasterRadialGradientMattedRect_def rasterTranslucentRadialGradientRect_def
      rasterSolidRadialGradientRect_def rasterRadialGradientMattedRle_def
      rasterTranslucentRadialGradientRle_def rasterSolidRadialGradientRle_def)

text \<open>The translucent RLE path returns false for every gradient: the dispatcher drops the
  result of the translucent rasterizer.\<close>

lemma rasterRadialGradientRle_translucent:
  assumes "\<not> compositing surface" "translucent fill"
  shows "returned (rasterRadialGradientRle P W surface (Some rle) fill) = Some False"
  using assms by (simp add: returned_def rasterRadialGradientRle_def)

text \<open>
  C5. Under a mask the radial rectangle rasterizer accepts a gradient with \<open>a < \<epsilon>\<close>
  (it renders and returns true), and it rejects a gradient with \<open>a \<ge> \<epsilon>\<close> whose
  \<^verbatim>\<open>linear.len\<close> reads below \<open>\<epsilon>\<close>; the RLE rasterizer does the same.
\<close>

theorem rasterRadialGradient_masked_tests_linear_len:
  "radial_a degenerate_radial < FLT_EPSILON \<and>
   returned (rasterRadialGradientRect P W (masked_surface AddMask) mid_region degenerate_radial)
     = Some True \<and>
   returned (rasterRadialGradientRle P W (masked_surface AddMask) (Some one_span)
               degenerate_radial) = Some True \<and>
   \<not> radial_a proper_radial < FLT_EPSILON \<and>
   rasterRadialGradientRect P W (masked_surface AddMask) mid_region proper_radial
     = Done (False, masked_surface AddMask) \<and>
   rasterRadialGradientRle P W (masked_surface AddMask) (Some one_span) proper_radial
     = Done (False, masked_surface AddMask)"
  by (simp add: returned_def rasterRadialGradientRect_def rasterRadialGradientMaskedRect_def
      rasterRadialGradientRle_def rasterRadialGradientMaskedRle_def
      gradient_masked_rect_def compositing_def matting_def masked_surface_def
      plain_surface_def demo_compositor_def degenerate_radial_def proper_radial_def
      FLT_EPSILON_def rasterDirectRGBAImage_def Let_def)

subsection \<open>Direct image draw through an RLE clip\<close>

lemma ref_ops_multiply_full: "MULTIPLY ref_ops 255 255 = 255"
  by (simp add: ref_ops_def)

lemma ref_ops_blend_zero: "ALPHA_BLEND ref_ops 0xFF000000 0 = 0"
  by (simp add: ref_ops_def)

text \<open>
  C4. An opaque white image drawn at opacity 255 through one span of two pixels at coverage
  255, onto opaque black: the combined alpha is 255, the first pixel of the span becomes
  white and the second keeps its old value.
\<close>

theorem rasterDirectRleRGBAImage_first_pixel_only:
  "span_len (spans one_span 0) = 2 \<and>
   MULTIPLY ref_ops (ucast (coverage (spans one_span 0))) 255 = 255 \<and>
   dst_pixel (rasterDirectRleRGBAImage ref_ops plain_surface white_image 255) 0
     = Some 0xFFFFFFFF \<and>
   dst_pixel (rasterDirectRleRGBAImage ref_ops plain_surface white_image 255) 1
     = Some 0xFF000000"
  by (simp add: dst_pixel_def rasterDirectRleRGBAImage_def plain_surface_def white_image_def
      one_span_def span_index_def IALPHA_of_def ref_ops_multiply_full ref_ops_blend_zero
      store_def load_def Let_def)

subsection \<open>Down-sampling at the top-left edge\<close>

text \<open>
  C7. A 2 x 2 image of white pixels, box centre (0, 0), half-scale 1: the one sample of the
  box inside the image gives 255 div 4 = 63 per channel by the specification, and
  \<^verbatim>\<open>_interpDownScaler\<close> returns 0, because \<^verbatim>\<open>rx - n\<close> and \<^verbatim>\<open>ry - n\<close> wrap around and the
  loops do not run.
\<close>

theorem interpDownScaler_edge:
  "interpDownScaler (\<lambda>_. 0xFFFFFFFF) 2 2 2 0 0 1 = Some 0 \<and>
   downscale_spec (\<lambda>_. 0xFFFFFFFF) 2 2 2 0 0 1 = 0x3F3F3F3F"
  by (simp add: interpDownScaler_def rounds_lt_def Let_def downscale_spec_def box_sum_def
      load_def upto.simps)

subsection \<open>The rectangle passed to beginComposite\<close>

text \<open>
  C9, as amended. When \<^verbatim>\<open>beginComposite\<close> returns a context, the buffer was requested
  for the full main surface, the image has the main surface's width and height and the
  bbox \<open>[0, w) \<times> [0, h)\<close>; the arguments \<open>x, y, w, h\<close> have no effect at all: any other
  rectangle gives the same context and the same renderer state, and the whole buffer is
  cleared (for a surface of fewer than \<open>2\<^sup>3\<^sup>1\<close> pixels).
\<close>

theorem beginComposite_ignores_rectangle:
  assumes "beginComposite r x y w h new_ok malloc = (Some ctx, r')"
  shows "rdata (ctx_image ctx) = malloc (4 * unat (rw (mainSurface r)) * unat (rh (mainSurface r)))
       \<and> riw (ctx_image ctx) = rw (mainSurface r) \<and> rih (ctx_image ctx) = rh (mainSurface r)
       \<and> rbbox (ctx_image ctx) = \<lparr>min_x = 0, min_y = 0, max_x = uint (rw (mainSurface r)),
                                    max_y = uint (rh (mainSurface r))\<rparr>
       \<and> beginComposite r x' y' w' h' new_ok malloc = (Some ctx, r')
       \<and> (\<forall>blk off i. rdata (ctx_image ctx) = Ptr blk off
             \<and> unat (rw (mainSurface r)) * unat (rh (mainSurface r)) < 2 ^ 31
             \<and> i < unat (rw (mainSurface r)) * unat (rh (mainSurface r))
            \<longrightarrow> heap r' blk (off + i) = 0)"
proof -
  let ?mw = "rw (mainSurface r)" and ?mh = "rh (mainSurface r)"
  let ?dat = "malloc (4 * unat ?mw * unat ?mh)"
  let ?s0 = "\<lparr>buffer = ptr_add ?dat (unat (?mw * 0 + 0)), rstride = ?mw, rw = ?mw, rh = ?mh,
               rcs = rcs (mainSurface r), comp = comp (mainSurface r)\<rparr>"
  from assms have ok: "new_ok" "?dat \<noteq> Null"
    by (auto simp add: beginComposite_def Let_def split: if_splits)
  have ctx: "ctx = \<lparr>ctx_surface = ?s0\<lparr>buffer := ?dat\<rparr>, ctx_recover = mainSurface r,
        ctx_image = \<lparr>rdata = ?dat, riw = ?mw, rih = ?mh,
          rbbox = \<lparr>min_x = 0, min_y = 0, max_x = uint ?mw, max_y = uint ?mh\<rparr>\<rparr>\<rparr>"
    and r': "r' = r\<lparr>mainSurface := ?s0\<lparr>buffer := ?dat\<rparr>,
                      heap := snd (rasterClear1 ?s0 (heap r))\<rparr>"
    using assms ok by (simp_all add: beginComposite_def Let_def)
  have indep: "beginComposite r x' y' w' h' new_ok malloc = (Some ctx, r')"
    using ok by (simp add: beginComposite_def Let_def ctx r')
  have cleared: "heap r' blk (off + i) = 0"
    if p: "rdata (ctx_image ctx) = Ptr blk off" and lt: "unat ?mw * unat ?mh < 2 ^ 31"
      and i: "i < unat ?mw * unat ?mh" for blk off i
  proof -
    have d: "?dat = Ptr blk off" using p by (simp add: ctx)
    have "unat ?mw \<noteq> 0" using i by (intro notI) simp
    moreover have "unat ?mh \<noteq> 0" using i by (intro notI) simp
    ultimately have nz: "?mw \<noteq> 0" "?mh \<noteq> 0" by (simp_all add: unat_eq_0)
    have "unat (?mw * ?mh) = unat ?mw * unat ?mh"
      using lt by (intro unat_mult_lem[THEN iffD1]) simp
    then have u: "uint (?mw * ?mh) = int (unat ?mw * unat ?mh)" by (simp only: uint_nat)
    have "int (unat ?mw * unat ?mh) < 2 ^ 31" using lt by (simp only: of_nat_less_numeral_power_cancel_iff)
    moreover have "- (2 ^ 31) \<le> (0::int)" by simp
    then have "- (2 ^ 31) \<le> int (unat ?mw * unat ?mh)"
      by (rule order_trans) (rule of_nat_0_le_iff)
    ultimately have "signed_take_bit 31 (int (unat ?mw * unat ?mh)) = int (unat ?mw * unat ?mh)"
      by (intro signed_take_bit_int_eq_self)
    then have s: "sint (?mw * ?mh) = int (unat ?mw * unat ?mh)"
      by (simp add: sint_uint u)
    have "heap r' blk = rasterRGBA32 (heap r blk) (int off) 0 0 (?mw * ?mh)"
      using nz by (simp add: r' rasterClear1_def d)
    moreover have "nat (sint (?mw * ?mh)) = unat ?mw * unat ?mh" by (simp only: s nat_int)
    ultimately have "heap r' blk (off + i) =
        (if off \<le> off + i \<and> off + i < off + unat ?mw * unat ?mh then 0
         else heap r blk (off + i))"
      by (simp only: rasterRGBA32_pixel)
    then show ?thesis using i by simp
  qed
  show ?thesis using indep cleared by (simp add: ctx)
qed


theorem beginComposite_ignores_rectangle_witness:
  "fst (beginComposite demo_renderer 1 1 1 1 True demo_malloc) \<noteq> None \<and>
   beginComposite demo_renderer 0 0 2 2 True demo_malloc
     = beginComposite demo_renderer 1 1 1 1 True demo_malloc \<and>
   heap (snd (beginComposite demo_renderer 1 1 1 1 True demo_malloc)) 1 3 = 0"
proof -
  let ?res = "beginComposite demo_renderer 1 1 1 1 True demo_malloc"
  have n: "fst ?res \<noteq> None"
    by (simp add: beginComposite_def demo_malloc_def Let_def)
  then obtain ctx where c: "fst ?res = Some ctx" by blast
  then have e: "?res = (Some ctx, snd ?res)" by (metis prod.collapse)
  note t = beginComposite_ignores_rectangle[OF e, of 0 0 2 2]
  have m: "rw (mainSurface demo_renderer) = 2" "rh (mainSurface demo_renderer) = 2"
    by (simp_all add: demo_renderer_def)
  have p: "rdata (ctx_image ctx) = Ptr 1 0" using t by (simp add: demo_malloc_def)
  have "heap (snd ?res) 1 (0 + 3) = 0"
    using t p by (simp only: m) simp
  then show ?thesis using n t e by simp
qed

text \<open>The arguments do not select what is cleared: for the rectangle of the single pixel
  (1, 1), the pixel (0, 0) of the new buffer is cleared too.\<close>

theorem beginComposite_clears_outside_rectangle:
  "fst (beginComposite demo_renderer 1 1 1 1 True demo_malloc) \<noteq> None \<and>
   heap demo_renderer 1 0 = 0xDEADBEEF \<and>
   heap (snd (beginComposite demo_renderer 1 1 1 1 True demo_malloc)) 1 0 = 0"
  by (simp add: beginComposite_def demo_renderer_def demo_malloc_def rasterClear1_def
      rasterRGBA32_def store_def for_loop_numeral Let_def)


end
